theory Spec2Isabelle
  imports Complex_Main "HOL-Library.AList"
begin

section \<open>Data model\<close>

text \<open>
  Amounts (\<open>saldo\<close>, \<open>monto\<close>, \<open>retiros_diarios\<close>) are Python floats. A float is
  modelled by the exact real it stands for, or by one of the three special values, which
  \<open>float\<close> reads from the texts \<open>inf\<close>, \<open>-inf\<close> and \<open>nan\<close> and \<open>json.load\<close>
  from \<open>Infinity\<close>, \<open>-Infinity\<close> and \<open>NaN\<close>. Rounding is not modelled. Comparison
  and arithmetic are those of IEEE 754: every comparison with \<open>nan\<close> is false, \<open>nan\<close>
  absorbs every sum and difference, and the sum of the two infinities is \<open>nan\<close>. A Python
  \<open>str\<close> is a \<open>string\<close> whose characters are read as the code points 0 to 255.
\<close>

datatype flotante = Num real | MasInf | MenosInf | NaN

instantiation flotante :: "{zero, one, uminus, minus, abs, ord, semigroup_add}"
begin

definition zero_flotante :: flotante where
  "zero_flotante = Num 0"

definition one_flotante :: flotante where
  "one_flotante = Num 1"

fun plus_flotante :: "flotante \<Rightarrow> flotante \<Rightarrow> flotante" where
  "plus_flotante (Num x) (Num y) = Num (x + y)"
| "plus_flotante NaN b = NaN"
| "plus_flotante a NaN = NaN"
| "plus_flotante MasInf MenosInf = NaN"
| "plus_flotante MenosInf MasInf = NaN"
| "plus_flotante MasInf b = MasInf"
| "plus_flotante a MasInf = MasInf"
| "plus_flotante MenosInf b = MenosInf"
| "plus_flotante a MenosInf = MenosInf"

fun uminus_flotante :: "flotante \<Rightarrow> flotante" where
  "uminus_flotante (Num x) = Num (- x)"
| "uminus_flotante MasInf = MenosInf"
| "uminus_flotante MenosInf = MasInf"
| "uminus_flotante NaN = NaN"

definition minus_flotante :: "flotante \<Rightarrow> flotante \<Rightarrow> flotante" where
  "minus_flotante a b = a + (- b)"

fun abs_flotante :: "flotante \<Rightarrow> flotante" where
  "abs_flotante (Num x) = Num \<bar>x\<bar>"
| "abs_flotante MasInf = MasInf"
| "abs_flotante MenosInf = MasInf"
| "abs_flotante NaN = NaN"

fun less_flotante :: "flotante \<Rightarrow> flotante \<Rightarrow> bool" where
  "less_flotante (Num x) (Num y) = (x < y)"
| "less_flotante NaN b = False"
| "less_flotante a NaN = False"
| "less_flotante MenosInf MenosInf = False"
| "less_flotante MenosInf b = True"
| "less_flotante MasInf b = False"
| "less_flotante a MasInf = True"
| "less_flotante a MenosInf = False"

definition less_eq_flotante :: "flotante \<Rightarrow> flotante \<Rightarrow> bool" where
  "less_eq_flotante a b \<longleftrightarrow> a < b \<or> (a = b \<and> a \<noteq> NaN)"

instance
proof
  fix a b c :: flotante
  show "a + b + c = a + (b + c)"
    by (cases a; cases b; cases c) simp_all
qed

end

instance flotante :: numeral ..

datatype TipoTransaccion = RETIRO | DEPOSITO | CONSULTA | CAMBIO_PIN | LOGIN

datatype EstadoTransaccion = EXITOSA | FALLIDA | CANCELADA

datatype date = Date (anio: nat) (mes: nat) (dia: nat)

datatype datetime =
  Datetime (fecha_de: date) (hora: nat) (minuto: nat) (segundo: nat) (microsegundo: nat)

subsection \<open>ConfiguracionATM\<close>

definition SALDO_INICIAL :: flotante where
  "SALDO_INICIAL = 0"

definition LIMITE_RETIRO_DIARIO :: flotante where
  "LIMITE_RETIRO_DIARIO = 200000"

definition LIMITE_RETIRO_TRANSACCION :: flotante where
  "LIMITE_RETIRO_TRANSACCION = 50000"

definition MONTOS_RAPIDOS :: "flotante list" where
  "MONTOS_RAPIDOS = [5000, 10000, 15000, 20000, 50000]"

definition INTENTOS_PIN_MAXIMOS :: nat where
  "INTENTOS_PIN_MAXIMOS = 3"

subsection \<open>SistemaSeguridad\<close>

text \<open>
  \<open>hash_pin\<close> is \<open>hashlib.sha256(pin.encode()).hexdigest()\<close>. The digest function
  belongs to the standard library; every operation that hashes takes it as the
  parameter \<open>h\<close>, and nothing is assumed about it.
\<close>

definition hash_pin :: "(string \<Rightarrow> string) \<Rightarrow> string \<Rightarrow> string" where
  "hash_pin h pin = h pin"

definition verificar_pin_hash :: "(string \<Rightarrow> string) \<Rightarrow> string \<Rightarrow> string \<Rightarrow> bool" where
  "verificar_pin_hash h pin pin_hasheado \<longleftrightarrow> hash_pin h pin = pin_hasheado"

text \<open>
  \<open>str.isdigit\<close>: the string is not empty and every character has the Unicode
  property Numeric\_Type Digit or Decimal. Among the code points 0 to 255 these are
  the ten ASCII digits and the superscripts U+00B2, U+00B3 and U+00B9.
\<close>

definition es_digito :: "char \<Rightarrow> bool" where
  "es_digito c \<longleftrightarrow> c \<in> set (''0123456789'' @ [CHR 0xB2, CHR 0xB3, CHR 0xB9])"

definition isdigit :: "string \<Rightarrow> bool" where
  "isdigit s \<longleftrightarrow> s \<noteq> [] \<and> list_all es_digito s"

definition validar_formato_pin :: "string \<Rightarrow> bool" where
  "validar_formato_pin pin \<longleftrightarrow> isdigit pin \<and> length pin = 4"

subsection \<open>CuentaUsuario\<close>

record CuentaUsuario =
  numero_cuenta :: string
  pin_hash :: string
  saldo :: flotante
  bloqueada :: bool
  intentos_fallidos :: int
  ultimo_retiro_fecha :: "date option"
  retiros_diarios :: flotante
  fecha_creacion :: datetime

text \<open>The constructor; \<open>ahora\<close> is the value of \<open>datetime.now()\<close>.\<close>

definition CuentaUsuario_init ::
  "(string \<Rightarrow> string) \<Rightarrow> datetime \<Rightarrow> string \<Rightarrow> string \<Rightarrow> flotante \<Rightarrow> CuentaUsuario" where
  "CuentaUsuario_init h ahora numero pin saldo_inicial =
     \<lparr>numero_cuenta = numero, pin_hash = hash_pin h pin, saldo = saldo_inicial,
      bloqueada = False, intentos_fallidos = 0, ultimo_retiro_fecha = None,
      retiros_diarios = 0, fecha_creacion = ahora\<rparr>"

definition verificar_pin :: "(string \<Rightarrow> string) \<Rightarrow> CuentaUsuario \<Rightarrow> string \<Rightarrow> bool" where
  "verificar_pin h c pin \<longleftrightarrow> verificar_pin_hash h pin (pin_hash c)"

definition cambiar_pin ::
  "(string \<Rightarrow> string) \<Rightarrow> CuentaUsuario \<Rightarrow> string \<Rightarrow> string \<Rightarrow> bool \<times> CuentaUsuario" where
  "cambiar_pin h c pin_actual pin_nuevo =
     (if verificar_pin h c pin_actual \<and> validar_formato_pin pin_nuevo
      then (True, c\<lparr>pin_hash := hash_pin h pin_nuevo\<rparr>)
      else (False, c))"

text \<open>
  The three messages of \<open>puede_retirar\<close>, with the limits formatted as the f-strings
  format them (\<open>{50000:,}\<close> is \<open>50,000\<close>).
\<close>

definition MSG_SALDO :: string where
  "MSG_SALDO = ''Saldo insuficiente''"

definition MSG_TRANSACCION :: string where
  "MSG_TRANSACCION =
     ''Monto excede l'' @ [CHR 0xED] @ ''mite por transacci'' @ [CHR 0xF3] @ ''n ($50,000)''"

definition MSG_DIARIO :: string where
  "MSG_DIARIO = ''Excede l'' @ [CHR 0xED] @ ''mite diario de retiros ($200,000)''"

text \<open>
  \<open>puede_retirar\<close> assigns to two fields of the account before its third test, so it
  returns the account along with its answer. \<open>hoy\<close> is \<open>datetime.now().date()\<close>.
\<close>

definition puede_retirar ::
  "date \<Rightarrow> CuentaUsuario \<Rightarrow> flotante \<Rightarrow> (bool \<times> string) \<times> CuentaUsuario" where
  "puede_retirar hoy c monto =
     (if saldo c < monto then ((False, MSG_SALDO), c)
      else if monto > LIMITE_RETIRO_TRANSACCION then ((False, MSG_TRANSACCION), c)
      else
        let c1 = (if ultimo_retiro_fecha c \<noteq> Some hoy
                  then c\<lparr>retiros_diarios := 0, ultimo_retiro_fecha := Some hoy\<rparr>
                  else c)
        in if retiros_diarios c1 + monto > LIMITE_RETIRO_DIARIO
           then ((False, MSG_DIARIO), c1)
           else ((True, ''OK''), c1))"

definition retirar :: "date \<Rightarrow> CuentaUsuario \<Rightarrow> flotante \<Rightarrow> bool \<times> CuentaUsuario" where
  "retirar hoy c monto =
     (let ((puede, mensaje), c1) = puede_retirar hoy c monto
      in if puede
         then (True, c1\<lparr>saldo := saldo c1 - monto,
                        retiros_diarios := retiros_diarios c1 + monto\<rparr>)
         else (False, c1))"

definition depositar :: "CuentaUsuario \<Rightarrow> flotante \<Rightarrow> bool \<times> CuentaUsuario" where
  "depositar c monto =
     (if monto > 0 then (True, c\<lparr>saldo := saldo c + monto\<rparr>) else (False, c))"

section \<open>The engine\<close>

subsection \<open>Transaccion\<close>

text \<open>
  The fields of a \<open>Transaccion\<close> carry the prefix \<open>tr_\<close>, because the source uses the
  bare names for parameters as well.
\<close>

record Transaccion =
  tr_timestamp :: datetime
  tr_tipo :: TipoTransaccion
  tr_monto :: flotante
  tr_estado :: EstadoTransaccion
  tr_cuenta :: string
  tr_detalle :: string

definition Transaccion_init ::
  "datetime \<Rightarrow> TipoTransaccion \<Rightarrow> flotante \<Rightarrow> EstadoTransaccion \<Rightarrow> string \<Rightarrow> string
     \<Rightarrow> Transaccion" where
  "Transaccion_init ahora tipo monto estado cuenta detalle =
     \<lparr>tr_timestamp = ahora, tr_tipo = tipo, tr_monto = monto, tr_estado = estado,
      tr_cuenta = cuenta, tr_detalle = detalle\<rparr>"

subsection \<open>What the user types\<close>

text \<open>
  The prompts of \<open>InterfazUsuario\<close> are loops around \<open>input\<close>; their outcome is an
  input of the model. \<open>solicitar_pin\<close> yields a PIN or, when interrupted, the empty
  string; \<open>confirmar_operacion\<close> yields a truth value. \<open>solicitar_monto\<close> is kept as
  the loop it is, over the entries typed: \<open>q\<close>, a number, or text that \<open>float\<close>
  rejects; when the entries run out the prompt is interrupted.
\<close>

datatype entrada = Q | Numero flotante | NoNumero

fun solicitar_monto :: "entrada list \<Rightarrow> flotante option" where
  "solicitar_monto [] = None"
| "solicitar_monto (Q # resto) = None"
| "solicitar_monto (Numero m # resto) = (if m \<le> 0 then solicitar_monto resto else Some m)"
| "solicitar_monto (NoNumero # resto) = solicitar_monto resto"

subsection \<open>CajeroAutomatico\<close>

text \<open>
  \<open>cuentas\<close> is the dictionary of accounts in insertion order. \<open>cuenta_actual\<close> refers to
  one of the account objects of the dictionary; the reference is modelled by the key of
  that object, and a change made through the reference is written back under the key
  (\<open>poner_actual\<close>). No operation removes a key, so a bound reference always has its
  object. The data file and the text log are written by these operations and never read
  back by them; they are not part of this state.
\<close>

datatype error = AttributeError | TypeError | KeyError | ValueError | JSONDecodeError

record CajeroAutomatico =
  cuentas :: "(string \<times> CuentaUsuario) list"
  transacciones :: "Transaccion list"
  cuenta_actual :: "string option"
  sesion_activa :: bool

definition objeto_actual :: "CajeroAutomatico \<Rightarrow> CuentaUsuario option" where
  "objeto_actual s = (case cuenta_actual s of None \<Rightarrow> None | Some k \<Rightarrow> map_of (cuentas s) k)"

definition poner_actual :: "CajeroAutomatico \<Rightarrow> CuentaUsuario \<Rightarrow> CajeroAutomatico" where
  "poner_actual s c =
     (case cuenta_actual s of None \<Rightarrow> s
      | Some k \<Rightarrow> s\<lparr>cuentas := AList.update k c (cuentas s)\<rparr>)"

definition registrar_transaccion ::
  "datetime \<Rightarrow> TipoTransaccion \<Rightarrow> flotante \<Rightarrow> EstadoTransaccion \<Rightarrow> string
     \<Rightarrow> CajeroAutomatico \<Rightarrow> CajeroAutomatico" where
  "registrar_transaccion ahora tipo monto estado detalle s =
     (let cuenta_id = (case objeto_actual s of Some c \<Rightarrow> numero_cuenta c | None \<Rightarrow> ''SISTEMA'')
      in s\<lparr>transacciones :=
              transacciones s @ [Transaccion_init ahora tipo monto estado cuenta_id detalle]\<rparr>)"

definition crear_cuenta_demo ::
  "(string \<Rightarrow> string) \<Rightarrow> datetime \<Rightarrow> CajeroAutomatico \<Rightarrow> CajeroAutomatico" where
  "crear_cuenta_demo h ahora s =
     s\<lparr>cuentas := AList.update ''123456''
                    (CuentaUsuario_init h ahora ''123456'' ''1234'' 100000) (cuentas s)\<rparr>"

text \<open>The constructor, given what \<open>cargar_datos\<close> returned.\<close>

definition CajeroAutomatico_init ::
  "(string \<Rightarrow> string) \<Rightarrow> datetime \<Rightarrow> (string \<times> CuentaUsuario) list \<Rightarrow> Transaccion list
     \<Rightarrow> CajeroAutomatico" where
  "CajeroAutomatico_init h ahora cs ts =
     (let s = \<lparr>cuentas = cs, transacciones = ts, cuenta_actual = None, sesion_activa = False\<rparr>
      in if cs = [] then crear_cuenta_demo h ahora s else s)"

text \<open>
  The loop \<open>for intento in range(INTENTOS_PIN_MAXIMOS)\<close> of \<open>autenticar_usuario\<close>, over
  the attempts still to make. \<open>pins intento\<close> is what \<open>solicitar_pin\<close> returns at that
  attempt; \<open>cuenta\<close> is the account object found under the key \<open>numero\<close>.
\<close>

fun bucle_pin ::
  "(string \<Rightarrow> string) \<Rightarrow> datetime \<Rightarrow> string \<Rightarrow> (nat \<Rightarrow> string) \<Rightarrow> nat list
     \<Rightarrow> CuentaUsuario \<Rightarrow> CajeroAutomatico \<Rightarrow> bool \<times> CajeroAutomatico" where
  "bucle_pin h ahora numero pins [] cuenta s = (False, s)"
| "bucle_pin h ahora numero pins (intento # resto) cuenta s =
     (let pin = pins intento in
      if pin = [] then (False, s)
      else if verificar_pin h cuenta pin then
        (let cuenta1 = cuenta\<lparr>intentos_fallidos := 0\<rparr>;
             s1 = s\<lparr>cuenta_actual := Some numero, sesion_activa := True,
                    cuentas := AList.update numero cuenta1 (cuentas s)\<rparr>
         in (True, registrar_transaccion ahora LOGIN 0 EXITOSA ''Login exitoso'' s1))
      else
        (let intentos_restantes = int INTENTOS_PIN_MAXIMOS - int intento - 1;
             cuenta1 = cuenta\<lparr>intentos_fallidos := intentos_fallidos cuenta + 1\<rparr>
         in if intentos_restantes > 0
            then bucle_pin h ahora numero pins resto cuenta1
                   (s\<lparr>cuentas := AList.update numero cuenta1 (cuentas s)\<rparr>)
            else
              (let cuenta2 = cuenta1\<lparr>bloqueada := True\<rparr>;
                   s2 = s\<lparr>cuentas := AList.update numero cuenta2 (cuentas s)\<rparr>
               in bucle_pin h ahora numero pins resto cuenta2
                    (registrar_transaccion ahora LOGIN 0 FALLIDA
                       ''Cuenta bloqueada por intentos fallidos'' s2))))"

definition autenticar_usuario ::
  "(string \<Rightarrow> string) \<Rightarrow> datetime \<Rightarrow> string \<Rightarrow> (nat \<Rightarrow> string)
     \<Rightarrow> CajeroAutomatico \<Rightarrow> bool \<times> CajeroAutomatico" where
  "autenticar_usuario h ahora numero pins s =
     (case map_of (cuentas s) numero of
        None \<Rightarrow>
          (False, registrar_transaccion ahora LOGIN 0 FALLIDA (''Cuenta inexistente: '' @ numero) s)
      | Some cuenta \<Rightarrow>
          if bloqueada cuenta then (False, s)
          else bucle_pin h ahora numero pins [0..<INTENTOS_PIN_MAXIMOS] cuenta s)"

text \<open>
  The operations of a session act on \<open>self.cuenta_actual\<close>; on \<open>None\<close> the attribute
  access raises \<open>AttributeError\<close>. \<open>hoy\<close> and \<open>hoy2\<close> are the dates read by the check of
  \<open>procesar_retiro\<close> and by the check inside \<open>retirar\<close>; \<open>confirma\<close> is the answer
  to the confirmation, asked only when the check allows the withdrawal.
\<close>

definition procesar_retiro ::
  "date \<Rightarrow> date \<Rightarrow> datetime \<Rightarrow> bool \<Rightarrow> flotante \<Rightarrow> CajeroAutomatico
     \<Rightarrow> error + CajeroAutomatico" where
  "procesar_retiro hoy hoy2 ahora confirma monto s =
     (case objeto_actual s of
        None \<Rightarrow> Inl AttributeError
      | Some c \<Rightarrow>
          (let ((puede, mensaje), c1) = puede_retirar hoy c monto;
               s1 = poner_actual s c1
           in if \<not> puede
              then Inr (registrar_transaccion ahora RETIRO monto FALLIDA mensaje s1)
              else if confirma then
                (let (hecho, c2) = retirar hoy2 c1 monto;
                     s2 = poner_actual s1 c2
                 in if hecho
                    then Inr (registrar_transaccion ahora RETIRO monto EXITOSA [] s2)
                    else Inr (registrar_transaccion ahora RETIRO monto FALLIDA [] s2))
              else Inr (registrar_transaccion ahora RETIRO monto CANCELADA [] s1)))"

datatype opcion_retiro = Rapido nat | OtroMonto "entrada list" | Volver

definition menu_retiro ::
  "date \<Rightarrow> date \<Rightarrow> datetime \<Rightarrow> bool \<Rightarrow> opcion_retiro \<Rightarrow> CajeroAutomatico
     \<Rightarrow> error + CajeroAutomatico" where
  "menu_retiro hoy hoy2 ahora confirma opcion s =
     (case opcion of
        Volver \<Rightarrow> Inr s
      | OtroMonto entradas \<Rightarrow>
          (case solicitar_monto entradas of
             None \<Rightarrow> Inr s
           | Some monto \<Rightarrow>
               if monto \<noteq> 0 then procesar_retiro hoy hoy2 ahora confirma monto s else Inr s)
      | Rapido idx \<Rightarrow>
          if idx < length MONTOS_RAPIDOS
          then procesar_retiro hoy hoy2 ahora confirma (MONTOS_RAPIDOS ! idx) s
          else Inr s)"

definition procesar_deposito ::
  "datetime \<Rightarrow> entrada list \<Rightarrow> bool \<Rightarrow> CajeroAutomatico \<Rightarrow> error + CajeroAutomatico" where
  "procesar_deposito ahora entradas confirma s =
     (case solicitar_monto entradas of
        None \<Rightarrow> Inr s
      | Some monto \<Rightarrow>
          if monto = 0 then Inr s
          else if confirma then
            (case objeto_actual s of
               None \<Rightarrow> Inl AttributeError
             | Some c \<Rightarrow>
                 (let (hecho, c1) = depositar c monto;
                      s1 = poner_actual s c1
                  in if hecho
                     then Inr (registrar_transaccion ahora DEPOSITO monto EXITOSA [] s1)
                     else Inr (registrar_transaccion ahora DEPOSITO monto FALLIDA [] s1)))
          else Inr (registrar_transaccion ahora DEPOSITO monto CANCELADA [] s))"

definition consultar_saldo :: "datetime \<Rightarrow> CajeroAutomatico \<Rightarrow> error + CajeroAutomatico" where
  "consultar_saldo ahora s =
     (case objeto_actual s of
        None \<Rightarrow> Inl AttributeError
      | Some c \<Rightarrow> Inr (registrar_transaccion ahora CONSULTA 0 EXITOSA [] s))"

text \<open>\<open>CajeroAutomatico.cambiar_pin\<close>; the three PINs are results of \<open>solicitar_pin\<close>.\<close>

definition cambiar_pin_cajero ::
  "(string \<Rightarrow> string) \<Rightarrow> datetime \<Rightarrow> string \<Rightarrow> string \<Rightarrow> string \<Rightarrow> CajeroAutomatico
     \<Rightarrow> error + CajeroAutomatico" where
  "cambiar_pin_cajero h ahora pin_actual pin_nuevo pin_confirmacion s =
     (if pin_actual = [] then Inr s
      else if pin_nuevo = [] then Inr s
      else if pin_nuevo \<noteq> pin_confirmacion then Inr s
      else
        (case objeto_actual s of
           None \<Rightarrow> Inl AttributeError
         | Some c \<Rightarrow>
             (let (hecho, c1) = cambiar_pin h c pin_actual pin_nuevo
              in if hecho
                 then Inr (registrar_transaccion ahora CAMBIO_PIN 0 EXITOSA [] (poner_actual s c1))
                 else Inr (registrar_transaccion ahora CAMBIO_PIN 0 FALLIDA []
                             (poner_actual s c1)))))"

definition cerrar_sesion :: "bool \<Rightarrow> CajeroAutomatico \<Rightarrow> CajeroAutomatico" where
  "cerrar_sesion confirma s =
     (if confirma then s\<lparr>sesion_activa := False, cuenta_actual := None\<rparr> else s)"

subsection \<open>AdministradorATM\<close>

definition autenticar_admin :: "string \<Rightarrow> bool" where
  "autenticar_admin pin \<longleftrightarrow> pin = ''0000''"

definition desbloquear_cuenta :: "string \<Rightarrow> bool \<Rightarrow> CajeroAutomatico \<Rightarrow> CajeroAutomatico" where
  "desbloquear_cuenta numero confirma s =
     (case map_of (cuentas s) numero of
        None \<Rightarrow> s
      | Some cuenta \<Rightarrow>
          if \<not> bloqueada cuenta then s
          else if confirma
          then s\<lparr>cuentas :=
                   AList.update numero (cuenta\<lparr>bloqueada := False, intentos_fallidos := 0\<rparr>)
                     (cuentas s)\<rparr>
          else s)"

text \<open>
  \<open>saldo_entrada\<close> is the initial balance typed, \<open>None\<close> when \<open>float\<close> rejects the text
  (an empty line counts as 0).
\<close>

definition crear_cuenta ::
  "(string \<Rightarrow> string) \<Rightarrow> datetime \<Rightarrow> string \<Rightarrow> string \<Rightarrow> flotante option \<Rightarrow> CajeroAutomatico
     \<Rightarrow> CajeroAutomatico" where
  "crear_cuenta h ahora numero pin saldo_entrada s =
     (if \<not> isdigit numero \<or> length numero \<noteq> 6 then s
      else if numero \<in> fst ` set (cuentas s) then s
      else if pin = [] then s
      else
        (case saldo_entrada of
           None \<Rightarrow> s
         | Some saldo_inicial \<Rightarrow>
             if saldo_inicial < 0 then s
             else s\<lparr>cuentas :=
                      AList.update numero (CuentaUsuario_init h ahora numero pin saldo_inicial)
                        (cuentas s)\<rparr>))"

definition limpiar_logs :: "bool \<Rightarrow> CajeroAutomatico \<Rightarrow> CajeroAutomatico" where
  "limpiar_logs confirma s =
     (if transacciones s = [] then s
      else if confirma then s\<lparr>transacciones := []\<rparr>
      else s)"

section \<open>The program as a transition system\<close>

text \<open>
  \<open>main\<close>, \<open>menu_usuario\<close> and \<open>menu_admin\<close> (with its submenu \<open>gestionar_cuentas\<close>) are
  loops that read an option and call one operation. The place of control is one of the
  three menus, or the program has ended; an event is the option chosen together with
  everything the operation then reads from the user and from the clock. An exception that
  leaves an operation reaches the handler of \<open>main\<close>, which ends the program.
\<close>

datatype lugar = MenuPrincipal | MenuUsuario | MenuAdmin | Terminado

datatype evento =
    AccesoUsuario string "nat \<Rightarrow> string" datetime
  | AccesoAdmin string
  | Salir bool
  | OpRetiro opcion_retiro bool date date datetime
  | OpDeposito "entrada list" bool datetime
  | OpConsulta datetime
  | OpCambiarPin string string string datetime
  | OpCerrarSesion bool
  | AdmDesbloquear string bool
  | AdmCrearCuenta string string "flotante option" datetime
  | AdmLimpiarLogs bool
  | AdmSoloLectura
  | AdmSalir

definition seguir ::
  "lugar \<Rightarrow> CajeroAutomatico \<Rightarrow> error + CajeroAutomatico \<Rightarrow> lugar \<times> CajeroAutomatico" where
  "seguir l s r = (case r of Inl e \<Rightarrow> (Terminado, s) | Inr s1 \<Rightarrow> (l, s1))"

text \<open>
  In the main menu: option 1 authenticates and enters the user menu on success, option 2
  enters the administrator menu on the right PIN, option 3 ends the program when
  confirmed.
\<close>

fun paso_principal ::
  "(string \<Rightarrow> string) \<Rightarrow> evento \<Rightarrow> CajeroAutomatico \<Rightarrow> lugar \<times> CajeroAutomatico" where
  "paso_principal h (AccesoUsuario numero pins ahora) s =
     (let (ok, s1) = autenticar_usuario h ahora numero pins s
      in if ok then (MenuUsuario, s1) else (MenuPrincipal, s1))"
| "paso_principal h (AccesoAdmin pin) s =
     (if autenticar_admin pin then (MenuAdmin, s) else (MenuPrincipal, s))"
| "paso_principal h (Salir confirma) s =
     (if confirma then (Terminado, s) else (MenuPrincipal, s))"
| "paso_principal h ev s = (MenuPrincipal, s)"

text \<open>
  In the user menu (\<open>while self.sesion_activa\<close>): options 1 to 4 call an operation and
  stay; option 5 calls \<open>cerrar_sesion\<close> and leaves the loop, whether or not the closing
  was confirmed.
\<close>

fun paso_usuario ::
  "(string \<Rightarrow> string) \<Rightarrow> evento \<Rightarrow> CajeroAutomatico \<Rightarrow> lugar \<times> CajeroAutomatico" where
  "paso_usuario h (OpRetiro opcion confirma hoy hoy2 ahora) s =
     seguir MenuUsuario s (menu_retiro hoy hoy2 ahora confirma opcion s)"
| "paso_usuario h (OpDeposito entradas confirma ahora) s =
     seguir MenuUsuario s (procesar_deposito ahora entradas confirma s)"
| "paso_usuario h (OpConsulta ahora) s =
     seguir MenuUsuario s (consultar_saldo ahora s)"
| "paso_usuario h (OpCambiarPin pin_actual pin_nuevo pin_confirmacion ahora) s =
     seguir MenuUsuario s (cambiar_pin_cajero h ahora pin_actual pin_nuevo pin_confirmacion s)"
| "paso_usuario h (OpCerrarSesion confirma) s = (MenuPrincipal, cerrar_sesion confirma s)"
| "paso_usuario h ev s = (MenuUsuario, s)"

text \<open>
  In the administrator menu: unlocking, creating an account and clearing the log change
  the state; statistics, listings and exports only read it.
\<close>

fun paso_admin ::
  "(string \<Rightarrow> string) \<Rightarrow> evento \<Rightarrow> CajeroAutomatico \<Rightarrow> lugar \<times> CajeroAutomatico" where
  "paso_admin h (AdmDesbloquear numero confirma) s = (MenuAdmin, desbloquear_cuenta numero confirma s)"
| "paso_admin h (AdmCrearCuenta numero pin saldo_entrada ahora) s =
     (MenuAdmin, crear_cuenta h ahora numero pin saldo_entrada s)"
| "paso_admin h (AdmLimpiarLogs confirma) s = (MenuAdmin, limpiar_logs confirma s)"
| "paso_admin h AdmSoloLectura s = (MenuAdmin, s)"
| "paso_admin h AdmSalir s = (MenuPrincipal, s)"
| "paso_admin h ev s = (MenuAdmin, s)"

fun paso ::
  "(string \<Rightarrow> string) \<Rightarrow> evento \<Rightarrow> lugar \<times> CajeroAutomatico \<Rightarrow> lugar \<times> CajeroAutomatico" where
  "paso h ev (MenuPrincipal, s) = paso_principal h ev s"
| "paso h ev (MenuUsuario, s) =
     (if sesion_activa s then paso_usuario h ev s else (MenuPrincipal, s))"
| "paso h ev (MenuAdmin, s) = paso_admin h ev s"
| "paso h ev (Terminado, s) = (Terminado, s)"

definition ejecutar ::
  "(string \<Rightarrow> string) \<Rightarrow> evento list \<Rightarrow> lugar \<times> CajeroAutomatico \<Rightarrow> lugar \<times> CajeroAutomatico" where
  "ejecutar h evs st = fold (paso h) evs st"

text \<open>The invariants of the claims, as predicates on the state of the engine.\<close>

definition saldos_no_negativos :: "CajeroAutomatico \<Rightarrow> bool" where
  "saldos_no_negativos s \<longleftrightarrow> list_all (\<lambda>(k, c). 0 \<le> saldo c) (cuentas s)"

text \<open>
  The two places where an amount typed by the user reaches a balance without a further
  test of its sign: the amount that the prompt of a withdrawal returns, and the initial
  balance typed for a new account. \<open>sin_nan\<close> holds of an event in which neither is
  \<open>nan\<close>.
\<close>

fun sin_nan :: "evento \<Rightarrow> bool" where
  "sin_nan (OpRetiro (OtroMonto entradas) confirma hoy hoy2 ahora) \<longleftrightarrow>
     solicitar_monto entradas \<noteq> Some NaN"
| "sin_nan (AdmCrearCuenta numero pin saldo_entrada ahora) \<longleftrightarrow> saldo_entrada \<noteq> Some NaN"
| "sin_nan ev \<longleftrightarrow> True"

text \<open>
  Two predicates for the proofs about locked accounts. \<open>sesion_sana\<close>: while control is in
  the user menu, the session is bound to an account that is not locked. \<open>misma_sesion\<close>:
  an operation of the session changed no account but the one the session is bound to,
  left the binding alone and did not change whether that account is locked.
\<close>

definition sesion_sana :: "lugar \<times> CajeroAutomatico \<Rightarrow> bool" where
  "sesion_sana st \<longleftrightarrow>
     (case st of
        (MenuUsuario, s) \<Rightarrow> (case objeto_actual s of None \<Rightarrow> False | Some c \<Rightarrow> \<not> bloqueada c)
      | (l, s) \<Rightarrow> True)"

definition misma_sesion :: "CajeroAutomatico \<Rightarrow> CajeroAutomatico \<Rightarrow> bool" where
  "misma_sesion s s1 \<longleftrightarrow>
     cuenta_actual s1 = cuenta_actual s
     \<and> (\<forall>k. cuenta_actual s \<noteq> Some k \<longrightarrow> map_of (cuentas s1) k = map_of (cuentas s) k)
     \<and> (\<forall>c. objeto_actual s = Some c
            \<longrightarrow> (\<exists>c1. objeto_actual s1 = Some c1 \<and> bloqueada c1 = bloqueada c))"

section \<open>Persistence\<close>

subsection \<open>JSON values and the library\<close>

text \<open>
  What \<open>json.load\<close> returns and \<open>json.dump\<close> accepts. A \<open>VDict\<close> is a Python
  dictionary: the list of its items in insertion order, a lookup taking the first item
  with the key. Numbers are exact, as everywhere in this model. The text of the file is
  not modelled: a file is absent, or is not JSON, or holds a document.
\<close>

datatype valor =
    VNone
  | VBool bool
  | VNum flotante
  | VStr string
  | VList "valor list"
  | VDict "(string \<times> valor) list"

datatype archivo = Ausente | NoJSON | Documento valor

text \<open>
  \<open>isoformat\<close> of a date and of a datetime, and \<open>datetime.fromisoformat\<close> on a
  string, belong to the standard library and are parameters of the model.
\<close>

record biblioteca =
  date_isoformat :: "date \<Rightarrow> string"
  datetime_isoformat :: "datetime \<Rightarrow> string"
  datetime_fromisoformat :: "string \<Rightarrow> error + datetime"

text \<open>Sequencing of computations that may raise.\<close>

definition ligar :: "error + 'a \<Rightarrow> ('a \<Rightarrow> error + 'b) \<Rightarrow> error + 'b" where
  "ligar r f = (case r of Inl e \<Rightarrow> Inl e | Inr x \<Rightarrow> f x)"

text \<open>
  \<open>data[clave]\<close>, \<open>data.get(clave, defecto)\<close>, \<open>for x in v\<close>, \<open>if v\<close> and
  \<open>datetime.fromisoformat(v)\<close> on a value of any type, with the exception Python raises
  where the type does not fit.
\<close>

fun subscript :: "valor \<Rightarrow> string \<Rightarrow> error + valor" where
  "subscript (VDict items) clave =
     (case map_of items clave of None \<Rightarrow> Inl KeyError | Some v \<Rightarrow> Inr v)"
| "subscript v clave = Inl TypeError"

fun get :: "valor \<Rightarrow> string \<Rightarrow> valor \<Rightarrow> error + valor" where
  "get (VDict items) clave defecto =
     (case map_of items clave of None \<Rightarrow> Inr defecto | Some v \<Rightarrow> Inr v)"
| "get v clave defecto = Inl AttributeError"

fun iterar :: "valor \<Rightarrow> error + valor list" where
  "iterar (VList xs) = Inr xs"
| "iterar (VDict items) = Inr (map (\<lambda>(k, v). VStr k) items)"
| "iterar (VStr s) = Inr (map (\<lambda>c. VStr [c]) s)"
| "iterar v = Inl TypeError"

fun verdadero :: "valor \<Rightarrow> bool" where
  "verdadero VNone = False"
| "verdadero (VBool b) = b"
| "verdadero (VNum x) = (x \<noteq> 0)"
| "verdadero (VStr s) = (s \<noteq> [])"
| "verdadero (VList xs) = (xs \<noteq> [])"
| "verdadero (VDict items) = (items \<noteq> [])"

fun fromisoformat :: "biblioteca \<Rightarrow> valor \<Rightarrow> error + datetime" where
  "fromisoformat L (VStr s) = datetime_fromisoformat L s"
| "fromisoformat L v = Inl TypeError"

text \<open>\<open>TipoTransaccion(v)\<close> and \<open>EstadoTransaccion(v)\<close>: the member with that value.\<close>

fun TipoTransaccion_value :: "TipoTransaccion \<Rightarrow> string" where
  "TipoTransaccion_value RETIRO = ''RETIRO''"
| "TipoTransaccion_value DEPOSITO = ''DEPOSITO''"
| "TipoTransaccion_value CONSULTA = ''CONSULTA''"
| "TipoTransaccion_value CAMBIO_PIN = ''CAMBIO_PIN''"
| "TipoTransaccion_value LOGIN = ''LOGIN''"

fun EstadoTransaccion_value :: "EstadoTransaccion \<Rightarrow> string" where
  "EstadoTransaccion_value EXITOSA = ''EXITOSA''"
| "EstadoTransaccion_value FALLIDA = ''FALLIDA''"
| "EstadoTransaccion_value CANCELADA = ''CANCELADA''"

definition TipoTransaccion_of :: "valor \<Rightarrow> error + TipoTransaccion" where
  "TipoTransaccion_of v =
     (case find (\<lambda>t. VStr (TipoTransaccion_value t) = v)
             [RETIRO, DEPOSITO, CONSULTA, CAMBIO_PIN, LOGIN] of
        None \<Rightarrow> Inl ValueError | Some t \<Rightarrow> Inr t)"

definition EstadoTransaccion_of :: "valor \<Rightarrow> error + EstadoTransaccion" where
  "EstadoTransaccion_of v =
     (case find (\<lambda>e. VStr (EstadoTransaccion_value e) = v) [EXITOSA, FALLIDA, CANCELADA] of
        None \<Rightarrow> Inl ValueError | Some e \<Rightarrow> Inr e)"

subsection \<open>to\_dict and from\_dict\<close>

definition Transaccion_to_dict :: "biblioteca \<Rightarrow> Transaccion \<Rightarrow> valor" where
  "Transaccion_to_dict L t =
     VDict [(''timestamp'', VStr (datetime_isoformat L (tr_timestamp t))),
            (''tipo'', VStr (TipoTransaccion_value (tr_tipo t))),
            (''monto'', VNum (tr_monto t)),
            (''estado'', VStr (EstadoTransaccion_value (tr_estado t))),
            (''cuenta'', VStr (tr_cuenta t)),
            (''detalle'', VStr (tr_detalle t))]"

definition CuentaUsuario_to_dict :: "biblioteca \<Rightarrow> CuentaUsuario \<Rightarrow> valor" where
  "CuentaUsuario_to_dict L c =
     VDict [(''numero_cuenta'', VStr (numero_cuenta c)),
            (''pin_hash'', VStr (pin_hash c)),
            (''saldo'', VNum (saldo c)),
            (''bloqueada'', VBool (bloqueada c)),
            (''intentos_fallidos'', VNum (Num (of_int (intentos_fallidos c)))),
            (''ultimo_retiro_fecha'',
               (case ultimo_retiro_fecha c of
                  None \<Rightarrow> VNone
                | Some d \<Rightarrow> VStr (date_isoformat L d))),
            (''retiros_diarios'', VNum (retiros_diarios c)),
            (''fecha_creacion'', VStr (datetime_isoformat L (fecha_creacion c)))]"

text \<open>
  \<open>from_dict\<close> stores most values as it finds them, of whatever type: the object it
  builds has fields that hold JSON values. Only the two dates and the two enumerations are
  converted. These are the objects as loaded; \<open>cuenta_cargada\<close> and
  \<open>transaccion_cargada\<close> give the loaded form of the objects the engine works with.
\<close>

record CuentaCargada =
  o_numero_cuenta :: valor
  o_pin_hash :: valor
  o_saldo :: valor
  o_bloqueada :: valor
  o_intentos_fallidos :: valor
  o_ultimo_retiro_fecha :: "date option"
  o_retiros_diarios :: valor
  o_fecha_creacion :: datetime

record TransaccionCargada =
  o_timestamp :: datetime
  o_tipo :: TipoTransaccion
  o_monto :: valor
  o_estado :: EstadoTransaccion
  o_cuenta :: valor
  o_detalle :: valor

definition cuenta_cargada :: "CuentaUsuario \<Rightarrow> CuentaCargada" where
  "cuenta_cargada c =
     \<lparr>o_numero_cuenta = VStr (numero_cuenta c), o_pin_hash = VStr (pin_hash c),
      o_saldo = VNum (saldo c), o_bloqueada = VBool (bloqueada c),
      o_intentos_fallidos = VNum (Num (of_int (intentos_fallidos c))),
      o_ultimo_retiro_fecha = ultimo_retiro_fecha c,
      o_retiros_diarios = VNum (retiros_diarios c), o_fecha_creacion = fecha_creacion c\<rparr>"

definition transaccion_cargada :: "Transaccion \<Rightarrow> TransaccionCargada" where
  "transaccion_cargada t =
     \<lparr>o_timestamp = tr_timestamp t, o_tipo = tr_tipo t, o_monto = VNum (tr_monto t),
      o_estado = tr_estado t, o_cuenta = VStr (tr_cuenta t), o_detalle = VStr (tr_detalle t)\<rparr>"

definition Transaccion_from_dict :: "biblioteca \<Rightarrow> valor \<Rightarrow> error + TransaccionCargada" where
  "Transaccion_from_dict L data =
     ligar (subscript data ''tipo'') (\<lambda>v_tipo.
     ligar (TipoTransaccion_of v_tipo) (\<lambda>tipo.
     ligar (subscript data ''monto'') (\<lambda>monto.
     ligar (subscript data ''estado'') (\<lambda>v_estado.
     ligar (EstadoTransaccion_of v_estado) (\<lambda>estado.
     ligar (subscript data ''cuenta'') (\<lambda>cuenta.
     ligar (subscript data ''detalle'') (\<lambda>detalle.
     ligar (subscript data ''timestamp'') (\<lambda>v_timestamp.
     ligar (fromisoformat L v_timestamp) (\<lambda>timestamp.
     Inr \<lparr>o_timestamp = timestamp, o_tipo = tipo, o_monto = monto, o_estado = estado,
          o_cuenta = cuenta, o_detalle = detalle\<rparr>)))))))))"

definition CuentaUsuario_from_dict :: "biblioteca \<Rightarrow> valor \<Rightarrow> error + CuentaCargada" where
  "CuentaUsuario_from_dict L data =
     ligar (subscript data ''numero_cuenta'') (\<lambda>numero.
     ligar (subscript data ''pin_hash'') (\<lambda>v_pin_hash.
     ligar (subscript data ''saldo'') (\<lambda>v_saldo.
     ligar (subscript data ''bloqueada'') (\<lambda>v_bloqueada.
     ligar (subscript data ''intentos_fallidos'') (\<lambda>v_intentos.
     ligar (subscript data ''ultimo_retiro_fecha'') (\<lambda>v_fecha.
     ligar (if verdadero v_fecha
            then ligar (fromisoformat L v_fecha) (\<lambda>t. Inr (Some (fecha_de t)))
            else Inr None) (\<lambda>fecha.
     ligar (subscript data ''retiros_diarios'') (\<lambda>v_retiros.
     ligar (subscript data ''fecha_creacion'') (\<lambda>v_creacion.
     ligar (fromisoformat L v_creacion) (\<lambda>creacion.
     Inr \<lparr>o_numero_cuenta = numero, o_pin_hash = v_pin_hash, o_saldo = v_saldo,
          o_bloqueada = v_bloqueada, o_intentos_fallidos = v_intentos,
          o_ultimo_retiro_fecha = fecha, o_retiros_diarios = v_retiros,
          o_fecha_creacion = creacion\<rparr>))))))))))"

subsection \<open>GestorDatos\<close>

text \<open>
  The dictionary that \<open>cargar_datos\<close> fills is keyed by whatever \<open>numero_cuenta\<close> holds.
  A list or a dictionary cannot be a key (\<open>TypeError\<close>); \<open>True\<close> and \<open>False\<close> are the
  same keys as 1 and 0.
\<close>

fun clave :: "valor \<Rightarrow> error + valor" where
  "clave (VList xs) = Inl TypeError"
| "clave (VDict items) = Inl TypeError"
| "clave (VBool b) = Inr (VNum (if b then 1 else 0))"
| "clave v = Inr v"

text \<open>
  The two loops of \<open>cargar_datos\<close>. Each returns what it has stored so far together with
  the exception that stopped it, if any: the \<open>except\<close> clause of \<open>cargar_datos\<close> does not
  undo what the loops have stored.
\<close>

fun cargar_cuentas ::
  "biblioteca \<Rightarrow> valor list \<Rightarrow> (valor \<times> CuentaCargada) list
     \<Rightarrow> (valor \<times> CuentaCargada) list \<times> error option" where
  "cargar_cuentas L [] cs = (cs, None)"
| "cargar_cuentas L (cuenta_data # resto) cs =
     (case CuentaUsuario_from_dict L cuenta_data of
        Inl e \<Rightarrow> (cs, Some e)
      | Inr cuenta \<Rightarrow>
          (case clave (o_numero_cuenta cuenta) of
             Inl e \<Rightarrow> (cs, Some e)
           | Inr k \<Rightarrow> cargar_cuentas L resto (AList.update k cuenta cs)))"

fun cargar_transacciones ::
  "biblioteca \<Rightarrow> valor list \<Rightarrow> TransaccionCargada list
     \<Rightarrow> TransaccionCargada list \<times> error option" where
  "cargar_transacciones L [] ts = (ts, None)"
| "cargar_transacciones L (trans_data # resto) ts =
     (case Transaccion_from_dict L trans_data of
        Inl e \<Rightarrow> (ts, Some e)
      | Inr t \<Rightarrow> cargar_transacciones L resto (ts @ [t]))"

text \<open>
  The body of the \<open>try\<close> on the parsed document: the accounts and transactions stored,
  and the exception that ended the body, if any.
\<close>

definition cargar_documento ::
  "biblioteca \<Rightarrow> valor
     \<Rightarrow> (valor \<times> CuentaCargada) list \<times> TransaccionCargada list \<times> error option" where
  "cargar_documento L data =
     (case ligar (get data ''cuentas'' (VList [])) iterar of
        Inl e \<Rightarrow> ([], [], Some e)
      | Inr cuentas_data \<Rightarrow>
          (case cargar_cuentas L cuentas_data [] of
             (cs, Some e) \<Rightarrow> (cs, [], Some e)
           | (cs, None) \<Rightarrow>
               (case ligar (get data ''transacciones'' (VList [])) iterar of
                  Inl e \<Rightarrow> (cs, [], Some e)
                | Inr trans_data \<Rightarrow>
                    (case cargar_transacciones L trans_data [] of
                       (ts, fin) \<Rightarrow> (cs, ts, fin)))))"

text \<open>
  \<open>cargar_datos\<close>: \<open>Inr\<close> is the pair returned, \<open>Inl\<close> an exception that the
  \<open>except (json.JSONDecodeError, KeyError, ValueError)\<close> clause does not catch and that
  leaves the function.
\<close>

definition capturada :: "error \<Rightarrow> bool" where
  "capturada e \<longleftrightarrow> e = JSONDecodeError \<or> e = KeyError \<or> e = ValueError"

definition cargar_datos ::
  "biblioteca \<Rightarrow> archivo
     \<Rightarrow> error + (valor \<times> CuentaCargada) list \<times> TransaccionCargada list" where
  "cargar_datos L disco =
     (case disco of
        Ausente \<Rightarrow> Inr ([], [])
      | NoJSON \<Rightarrow> Inr ([], [])
      | Documento data \<Rightarrow>
          (case cargar_documento L data of
             (cs, ts, None) \<Rightarrow> Inr (cs, ts)
           | (cs, ts, Some e) \<Rightarrow>
               if capturada e then Inr (cs, ts) else Inl e))"

text \<open>
  \<open>transacciones[-1000:]\<close>, and the document that \<open>guardar_datos\<close> builds and writes.
  \<open>escribe\<close> tells whether opening and writing the file succeed; on an \<open>IOError\<close> the
  file is taken to stay as it was.
\<close>

definition ultimas :: "nat \<Rightarrow> 'a list \<Rightarrow> 'a list" where
  "ultimas n xs = drop (length xs - n) xs"

definition datos_guardados ::
  "biblioteca \<Rightarrow> (string \<times> CuentaUsuario) list \<Rightarrow> Transaccion list \<Rightarrow> valor" where
  "datos_guardados L cs ts =
     VDict [(''cuentas'', VList (map (\<lambda>(k, cuenta). CuentaUsuario_to_dict L cuenta) cs)),
            (''transacciones'', VList (map (Transaccion_to_dict L) (ultimas 1000 ts)))]"

definition guardar_datos ::
  "biblioteca \<Rightarrow> bool \<Rightarrow> (string \<times> CuentaUsuario) list \<Rightarrow> Transaccion list \<Rightarrow> archivo
     \<Rightarrow> archivo" where
  "guardar_datos L escribe cs ts disco =
     (if escribe then Documento (datos_guardados L cs ts) else disco)"

text \<open>
  What the round trip needs of the library, on the dates and times of a given state: the
  text of a date is not empty and \<open>fromisoformat\<close> reads it back as a time on that date;
  the text of a time is read back as that time.
\<close>

definition fecha_reversible :: "biblioteca \<Rightarrow> date \<Rightarrow> bool" where
  "fecha_reversible L d \<longleftrightarrow>
     date_isoformat L d \<noteq> []
     \<and> (case datetime_fromisoformat L (date_isoformat L d) of
          Inl e \<Rightarrow> False | Inr t \<Rightarrow> fecha_de t = d)"

definition hora_reversible :: "biblioteca \<Rightarrow> datetime \<Rightarrow> bool" where
  "hora_reversible L t \<longleftrightarrow> datetime_fromisoformat L (datetime_isoformat L t) = Inr t"

definition cuenta_reversible :: "biblioteca \<Rightarrow> CuentaUsuario \<Rightarrow> bool" where
  "cuenta_reversible L c \<longleftrightarrow>
     hora_reversible L (fecha_creacion c)
     \<and> (case ultimo_retiro_fecha c of None \<Rightarrow> True | Some d \<Rightarrow> fecha_reversible L d)"

definition estado_reversible ::
  "biblioteca \<Rightarrow> (string \<times> CuentaUsuario) list \<Rightarrow> Transaccion list \<Rightarrow> bool" where
  "estado_reversible L cs ts \<longleftrightarrow>
     list_all (\<lambda>(k, c). cuenta_reversible L c) cs
     \<and> list_all (\<lambda>t. hora_reversible L (tr_timestamp t)) (ultimas 1000 ts)"

text \<open>The accounts are keyed by their number, each number once.\<close>

definition claves_son_numeros :: "(string \<times> CuentaUsuario) list \<Rightarrow> bool" where
  "claves_son_numeros cs \<longleftrightarrow>
     distinct (map fst cs) \<and> list_all (\<lambda>(k, c). numero_cuenta c = k) cs"

section \<open>The specification's own formulations\<close>

text \<open>
  Two definitions written from the words of the specification, to compare the code with:
  the rule order of \<open>canWithdraw\<close> with its three failure reasons, and \<open>validFormat\<close>
  (exactly four characters, all decimal digits).
\<close>

datatype motivo = InsufficientFunds | PerTransactionLimitExceeded | DailyLimitExceeded

definition canWithdraw_spec ::
  "flotante \<Rightarrow> date option \<Rightarrow> flotante \<Rightarrow> date \<Rightarrow> flotante \<Rightarrow> motivo option" where
  "canWithdraw_spec balance lastWithdrawalDate dailyWithdrawn today amount =
     (if balance < amount then Some InsufficientFunds
      else if amount > 50000 then Some PerTransactionLimitExceeded
      else if (if lastWithdrawalDate \<noteq> Some today then 0 else dailyWithdrawn) + amount > 200000
           then Some DailyLimitExceeded
      else None)"

text \<open>The answer of \<open>puede_retirar\<close> that stands for each reason (\<open>None\<close>: allowed).\<close>

fun respuesta_de :: "motivo option \<Rightarrow> bool \<times> string" where
  "respuesta_de None = (True, ''OK'')"
| "respuesta_de (Some InsufficientFunds) = (False, MSG_SALDO)"
| "respuesta_de (Some PerTransactionLimitExceeded) = (False, MSG_TRANSACCION)"
| "respuesta_de (Some DailyLimitExceeded) = (False, MSG_DIARIO)"


section \<open>Concrete values for the examples\<close>

text \<open>
  A stand-in digest for evaluating examples (the theorems below hold for every digest
  function), and the account that \<open>crear_cuenta_demo\<close> creates.
\<close>

definition digest_ejemplo :: "string \<Rightarrow> string" where
  "digest_ejemplo pin = ''sha256:'' @ pin"

definition cuenta_demo :: CuentaUsuario where
  "cuenta_demo =
     CuentaUsuario_init digest_ejemplo (Datetime (Date 2024 1 1) 9 0 0 0) ''123456'' ''1234'' 100000"


definition cuenta_sobre_limite :: CuentaUsuario where
  "cuenta_sobre_limite =
     cuenta_demo\<lparr>retiros_diarios := 250000, ultimo_retiro_fecha := Some (Date 2024 1 2)\<rparr>"

definition cuenta_ayer :: CuentaUsuario where
  "cuenta_ayer =
     cuenta_demo\<lparr>retiros_diarios := 1000, ultimo_retiro_fecha := Some (Date 2024 1 1)\<rparr>"

definition AHORA :: datetime where
  "AHORA = Datetime (Date 2024 1 2) 10 30 0 0"

definition HOY :: date where
  "HOY = Date 2024 1 2"

definition cajero_demo :: CajeroAutomatico where
  "cajero_demo = CajeroAutomatico_init digest_ejemplo (Datetime (Date 2024 1 1) 9 0 0 0) [] []"

definition eventos_demo :: "evento list" where
  "eventos_demo =
     [AccesoUsuario ''123456'' (\<lambda>intento. ''1234'') AHORA,
      OpRetiro (Rapido 4) True HOY HOY AHORA,
      OpDeposito [Numero 250] True AHORA]"

text \<open>
  The owner of the demo account logs in, chooses a withdrawal of another amount, types
  \<open>nan\<close> and confirms; the administrator logs in and creates an account, typing
  \<open>nan\<close> as its initial balance.
\<close>

definition eventos_nan :: "evento list" where
  "eventos_nan =
     [AccesoUsuario ''123456'' (\<lambda>intento. ''1234'') AHORA,
      OpRetiro (OtroMonto [Numero NaN]) True HOY HOY AHORA]"

definition eventos_cuenta_nan :: "evento list" where
  "eventos_cuenta_nan =
     [AccesoAdmin ''0000'', AdmCrearCuenta ''654321'' ''1111'' (Some NaN) AHORA]"


text \<open>A session on the account whose last withdrawal was the day before \<open>HOY\<close>.\<close>

definition cajero_ayer :: CajeroAutomatico where
  "cajero_ayer = \<lparr>cuentas = [(''123456'', cuenta_ayer)], transacciones = [],
                   cuenta_actual = Some ''123456'', sesion_activa = True\<rparr>"

text \<open>
  Three wrong PINs on the demo account, then the administrator logs in; afterwards the
  owner tries again with the right PIN and a deposit.
\<close>

definition eventos_bloqueo :: "evento list" where
  "eventos_bloqueo = [AccesoUsuario ''123456'' (\<lambda>intento. ''0000'') AHORA, AccesoAdmin ''0000'']"

definition eventos_despues :: "evento list" where
  "eventos_despues =
     [AdmSalir, AccesoUsuario ''123456'' (\<lambda>intento. ''1234'') AHORA,
      OpDeposito [Numero 5] True AHORA]"

definition cuenta_bloqueada :: CuentaUsuario where
  "cuenta_bloqueada = cuenta_demo\<lparr>intentos_fallidos := 3, bloqueada := True\<rparr>"

text \<open>
  A stand-in for the library's ISO formats, for evaluating examples: dates as
  \<open>YYYY-MM-DD\<close>, times as \<open>YYYY-MM-DDTHH:MM:SS\<close> with \<open>.ffffff\<close> appended when the
  microseconds are not 0, and a reader of exactly these three layouts.
\<close>

definition cifra :: "nat \<Rightarrow> char" where
  "cifra n = ''0123456789'' ! (n mod 10)"

definition dos_cifras :: "nat \<Rightarrow> string" where
  "dos_cifras n = [cifra (n div 10), cifra n]"

definition cuatro_cifras :: "nat \<Rightarrow> string" where
  "cuatro_cifras n = dos_cifras (n div 100) @ dos_cifras n"

definition date_isoformat_ejemplo :: "date \<Rightarrow> string" where
  "date_isoformat_ejemplo d =
     cuatro_cifras (anio d) @ ''-'' @ dos_cifras (mes d) @ ''-'' @ dos_cifras (dia d)"

definition datetime_isoformat_ejemplo :: "datetime \<Rightarrow> string" where
  "datetime_isoformat_ejemplo t =
     date_isoformat_ejemplo (fecha_de t) @ ''T'' @ dos_cifras (hora t) @ '':''
       @ dos_cifras (minuto t) @ '':'' @ dos_cifras (segundo t)
       @ (if microsegundo t = 0 then []
          else ''.'' @ dos_cifras (microsegundo t div 10000) @ cuatro_cifras (microsegundo t))"

definition valor_cifra :: "char \<Rightarrow> nat option" where
  "valor_cifra c =
     map_of [(CHR ''0'', 0), (CHR ''1'', 1), (CHR ''2'', 2), (CHR ''3'', 3), (CHR ''4'', 4),
             (CHR ''5'', 5), (CHR ''6'', 6), (CHR ''7'', 7), (CHR ''8'', 8), (CHR ''9'', 9)] c"

fun leer :: "string \<Rightarrow> string \<Rightarrow> nat \<Rightarrow> nat list option" where
  "leer [] [] n = Some [n]"
| "leer (p # ps) (c # cs) n =
     (if p = CHR ''d''
      then (case valor_cifra c of None \<Rightarrow> None | Some v \<Rightarrow> leer ps cs (10 * n + v))
      else if p = c then map_option (\<lambda>r. n # r) (leer ps cs 0)
      else None)"
| "leer ps cs n = None"

definition datetime_fromisoformat_ejemplo :: "string \<Rightarrow> error + datetime" where
  "datetime_fromisoformat_ejemplo s =
     (case leer ''dddd-dd-dd'' s 0 of
        Some [y, m, d] \<Rightarrow> Inr (Datetime (Date y m d) 0 0 0 0)
      | _ \<Rightarrow>
     (case leer ''dddd-dd-ddTdd:dd:dd'' s 0 of
        Some [y, m, d, h, mi, se] \<Rightarrow> Inr (Datetime (Date y m d) h mi se 0)
      | _ \<Rightarrow>
     (case leer ''dddd-dd-ddTdd:dd:dd.dddddd'' s 0 of
        Some [y, m, d, h, mi, se, us] \<Rightarrow> Inr (Datetime (Date y m d) h mi se us)
      | _ \<Rightarrow> Inl ValueError)))"

definition biblioteca_ejemplo :: biblioteca where
  "biblioteca_ejemplo =
     \<lparr>date_isoformat = date_isoformat_ejemplo, datetime_isoformat = datetime_isoformat_ejemplo,
      datetime_fromisoformat = datetime_fromisoformat_ejemplo\<rparr>"

text \<open>
  A state to save and load, and a document whose only account is well formed and whose
  only transaction has a kind that does not exist.
\<close>

definition cuentas_ejemplo :: "(string \<times> CuentaUsuario) list" where
  "cuentas_ejemplo = [(''123456'', cuenta_ayer)]"

definition transacciones_ejemplo :: "Transaccion list" where
  "transacciones_ejemplo =
     [Transaccion_init AHORA LOGIN 0 EXITOSA ''123456'' ''Login exitoso'',
      Transaccion_init (Datetime HOY 10 31 7 250000) RETIRO 5000 CANCELADA ''123456'' []]"

definition transaccion_mala :: valor where
  "transaccion_mala = VDict [(''tipo'', VStr ''TRANSFERENCIA''), (''monto'', VNum 10)]"

definition documento_parcial :: valor where
  "documento_parcial =
     VDict [(''cuentas'', VList [CuentaUsuario_to_dict biblioteca_ejemplo cuenta_demo]),
            (''transacciones'', VList [transaccion_mala])]"

section \<open>Arithmetic of floats\<close>

lemma numeral_flotante: "(numeral k :: flotante) = Num (numeral k)"
proof (induction k)
  case One
  show ?case by (simp only: numeral_One one_flotante_def)
next
  case (Bit0 k)
  then show ?case by (simp only: numeral_Bit0 plus_flotante.simps)
next
  case (Bit1 k)
  then show ?case by (simp only: numeral_Bit1 one_flotante_def plus_flotante.simps)
qed

lemmas flotante_eval =
  numeral_flotante zero_flotante_def one_flotante_def minus_flotante_def less_eq_flotante_def

lemma no_positivo_menor: "0 \<le> a \<Longrightarrow> monto \<le> 0 \<Longrightarrow> \<not> a < (monto::flotante)"
  by (cases a; cases monto) (auto simp: flotante_eval)

lemma no_positivo_numeral: "monto \<le> 0 \<Longrightarrow> \<not> numeral k < (monto::flotante)"
proof (cases monto)
  case (Num x)
  assume "monto \<le> 0"
  with Num have "x \<le> 0"
    by (auto simp: flotante_eval)
  with zero_less_numeral [of k, where 'a = real] have "\<not> numeral k < x"
    by linarith
  with Num show ?thesis
    by (simp add: flotante_eval)
qed (simp_all add: flotante_eval)

lemma no_positivo_resta: "monto \<le> 0 \<Longrightarrow> a - monto = a + \<bar>monto::flotante\<bar>"
  by (cases a; cases monto) (auto simp: flotante_eval)

lemma no_positivo_suma: "monto \<le> 0 \<Longrightarrow> a + monto = a - \<bar>monto::flotante\<bar>"
  by (cases a; cases monto) (auto simp: flotante_eval)

lemma resta_no_negativa:
  "0 \<le> a \<Longrightarrow> monto \<noteq> NaN \<Longrightarrow> \<not> a < monto \<Longrightarrow> \<not> numeral k < monto
     \<Longrightarrow> 0 \<le> a - (monto::flotante)"
  by (cases a; cases monto) (auto simp: flotante_eval)

lemma suma_no_negativa: "0 \<le> a \<Longrightarrow> 0 < monto \<Longrightarrow> 0 \<le> a + (monto::flotante)"
  by (cases a; cases monto) (auto simp: flotante_eval)

lemma no_menor_cero: "a \<noteq> NaN \<Longrightarrow> \<not> a < 0 \<Longrightarrow> 0 \<le> (a::flotante)"
  by (cases a) (auto simp: flotante_eval)

section \<open>Properties of CuentaUsuario\<close>

lemma cuenta_demo_campos:
  "saldo cuenta_demo = 100000" "ultimo_retiro_fecha cuenta_demo = None"
  "retiros_diarios cuenta_demo = 0" "bloqueada cuenta_demo = False"
  "intentos_fallidos cuenta_demo = 0" "numero_cuenta cuenta_demo = ''123456''"
  "pin_hash cuenta_demo = ''sha256:1234''"
  by (simp_all add: cuenta_demo_def CuentaUsuario_init_def hash_pin_def digest_ejemplo_def)

lemma respuesta_de_inj: "inj respuesta_de"
proof (rule injI)
  fix a b assume "respuesta_de a = respuesta_de b"
  then show "a = b"
    by (cases a rule: respuesta_de.cases; cases b rule: respuesta_de.cases)
       (simp_all add: MSG_SALDO_def MSG_TRANSACCION_def MSG_DIARIO_def)
qed

text \<open>
  Claim C5. \<open>puede_retirar\<close> answers as the specification's \<open>canWithdraw\<close> does: the
  balance test first, then the per-transaction limit of 50 000, then the daily limit of
  200 000 on the daily total taken as 0 when the stored date is not today, and otherwise
  allowed; the reason reported is that of the first rule that fails. (The three messages
  and \<open>OK\<close> are pairwise different, see \<open>respuesta_de_inj\<close>.)
\<close>

theorem puede_retirar_orden:
  "fst (puede_retirar hoy c monto) =
     respuesta_de
       (canWithdraw_spec (saldo c) (ultimo_retiro_fecha c) (retiros_diarios c) hoy monto)"
  by (simp add: puede_retirar_def canWithdraw_spec_def Let_def
        LIMITE_RETIRO_TRANSACCION_def LIMITE_RETIRO_DIARIO_def)

text \<open>
  With balance 10, 190 000 already withdrawn today and an amount of 60 000 all three rules
  fail; the answer is the one of the balance rule.
\<close>

theorem puede_retirar_orden_witness:
  "fst (puede_retirar (Date 2024 1 2)
         (cuenta_demo\<lparr>saldo := 10, retiros_diarios := 190000,
                       ultimo_retiro_fecha := Some (Date 2024 1 2)\<rparr>) 60000)
   = (False, MSG_SALDO)"
  using puede_retirar_orden [of "Date 2024 1 2"
      "cuenta_demo\<lparr>saldo := 10, retiros_diarios := 190000,
                    ultimo_retiro_fecha := Some (Date 2024 1 2)\<rparr>" 60000]
  by (simp add: canWithdraw_spec_def flotante_eval)

text \<open>
  Claim C2, as stated: \<open>puede_retirar\<close> changes no field of the account. It fails on an
  account whose last withdrawal was yesterday: the check itself sets the daily total to 0
  and the date to today.
\<close>

theorem puede_retirar_muta_counterexample:
  "snd (puede_retirar (Date 2024 1 2) cuenta_ayer 100) \<noteq> cuenta_ayer
   \<and> retiros_diarios (snd (puede_retirar (Date 2024 1 2) cuenta_ayer 100)) = 0
   \<and> retiros_diarios cuenta_ayer = 1000"
proof -
  have a: "retiros_diarios (snd (puede_retirar (Date 2024 1 2) cuenta_ayer 100)) = 0"
    by (simp add: puede_retirar_def cuenta_ayer_def cuenta_demo_campos
          LIMITE_RETIRO_TRANSACCION_def LIMITE_RETIRO_DIARIO_def flotante_eval)
  have b: "retiros_diarios cuenta_ayer = 1000"
    by (simp add: cuenta_ayer_def)
  have "(0::flotante) \<noteq> 1000"
    by (simp add: flotante_eval)
  with a b have "snd (puede_retirar (Date 2024 1 2) cuenta_ayer 100) \<noteq> cuenta_ayer"
    by auto
  with a b show ?thesis by simp
qed

text \<open>
  Claim C2, amended. \<open>puede_retirar\<close> leaves the account as it is when the balance test
  or the per-transaction test fails, or when the stored date is today. Otherwise the check
  itself commits the daily reset (daily total 0, date today), whatever its answer and
  whether or not a withdrawal follows; no other field changes.
\<close>

theorem puede_retirar_efecto:
  "snd (puede_retirar hoy c monto) =
     (if saldo c < monto \<or> monto > LIMITE_RETIRO_TRANSACCION \<or> ultimo_retiro_fecha c = Some hoy
      then c
      else c\<lparr>retiros_diarios := 0, ultimo_retiro_fecha := Some hoy\<rparr>)"
  by (simp add: puede_retirar_def Let_def)

theorem puede_retirar_efecto_witness:
  "snd (puede_retirar (Date 2024 1 1) cuenta_ayer 100) = cuenta_ayer
   \<and> snd (puede_retirar (Date 2024 1 2) cuenta_ayer 200000) = cuenta_ayer
   \<and> snd (puede_retirar (Date 2024 1 2) cuenta_ayer 100)
       = cuenta_ayer\<lparr>retiros_diarios := 0, ultimo_retiro_fecha := Some (Date 2024 1 2)\<rparr>"
  using puede_retirar_efecto [of "Date 2024 1 1" cuenta_ayer 100]
    puede_retirar_efecto [of "Date 2024 1 2" cuenta_ayer 200000]
    puede_retirar_efecto [of "Date 2024 1 2" cuenta_ayer 100]
  by (simp add: cuenta_ayer_def cuenta_demo_campos LIMITE_RETIRO_TRANSACCION_def flotante_eval)







lemma verifica_demo: "verificar_pin digest_ejemplo cuenta_demo ''1234''"
  by (simp add: verificar_pin_def verificar_pin_hash_def cuenta_demo_def CuentaUsuario_init_def)





text \<open>
  Claim C10, as stated: \<open>retirar\<close> succeeds for every account with a non-negative
  balance and every non-positive amount. It fails on an account whose daily total for
  today is 250 000, above the daily limit: a withdrawal of 0 is refused.
\<close>

theorem retirar_no_positivo_counterexample:
  "0 \<le> saldo cuenta_sobre_limite \<and> (0::flotante) \<le> 0
   \<and> \<not> fst (retirar (Date 2024 1 2) cuenta_sobre_limite 0)"
  by (simp add: retirar_def puede_retirar_def cuenta_sobre_limite_def cuenta_demo_campos
        LIMITE_RETIRO_TRANSACCION_def LIMITE_RETIRO_DIARIO_def flotante_eval)

text \<open>
  Claim C10, amended. There is no test \<open>monto > 0\<close> in \<open>retirar\<close> or \<open>puede_retirar\<close>:
  for an account with a non-negative balance and a non-positive amount, \<open>retirar\<close>
  succeeds exactly when the daily total counted for today (the stored one if the stored
  date is today, 0 otherwise) plus the amount does not exceed the daily limit. It then adds
  \<open>|monto|\<close> to the balance, sets the daily total to the counted one minus \<open>|monto|\<close>
  and the date to today.
\<close>

theorem retirar_no_positivo:
  assumes "0 \<le> saldo c" and "monto \<le> 0"
  shows "(fst (retirar hoy c monto) \<longleftrightarrow>
            \<not> (if ultimo_retiro_fecha c = Some hoy then retiros_diarios c else 0) + monto
                 > LIMITE_RETIRO_DIARIO)
         \<and> (fst (retirar hoy c monto) \<longrightarrow>
              snd (retirar hoy c monto) =
                c\<lparr>saldo := saldo c + \<bar>monto\<bar>,
                  retiros_diarios :=
                    (if ultimo_retiro_fecha c = Some hoy then retiros_diarios c else 0) - \<bar>monto\<bar>,
                  ultimo_retiro_fecha := Some hoy\<rparr>)"
proof -
  from assms have p: "\<not> saldo c < monto" "\<not> monto > LIMITE_RETIRO_TRANSACCION"
    by (simp add: no_positivo_menor, simp add: LIMITE_RETIRO_TRANSACCION_def no_positivo_numeral)
  from assms(2) have q: "a - monto = a + \<bar>monto\<bar>" "a + monto = a - \<bar>monto\<bar>" for a
    by (rule no_positivo_resta, rule no_positivo_suma)
  show ?thesis
  proof (cases "ultimo_retiro_fecha c = Some hoy")
    case True
    with p show ?thesis
      by (simp add: retirar_def puede_retirar_def Let_def q)
  next
    case False
    with p show ?thesis
      by (simp add: retirar_def puede_retirar_def Let_def q)
  qed
qed

theorem retirar_no_positivo_witness:
  "fst (retirar (Date 2024 1 2) cuenta_demo (- 500))
   \<and> saldo (snd (retirar (Date 2024 1 2) cuenta_demo (- 500))) = 100500
   \<and> retiros_diarios (snd (retirar (Date 2024 1 2) cuenta_demo (- 500))) = - 500"
proof -
  have s: "0 \<le> saldo cuenta_demo" by (simp add: cuenta_demo_campos flotante_eval)
  have m: "(- 500 :: flotante) \<le> 0" by (simp add: flotante_eval)
  note r = retirar_no_positivo [OF s m, of "Date 2024 1 2"]
  have a: "fst (retirar (Date 2024 1 2) cuenta_demo (- 500))"
    using r by (simp add: cuenta_demo_campos LIMITE_RETIRO_DIARIO_def flotante_eval)
  show ?thesis using r a by (simp add: cuenta_demo_campos flotante_eval)
qed

section \<open>The balance\<close>

lemma list_all_update:
  "list_all P al \<Longrightarrow> P (k, v) \<Longrightarrow> list_all P (AList.update k v al)"
  by (induction al) auto

lemma list_all_map_of:
  "list_all P al \<Longrightarrow> map_of al k = Some v \<Longrightarrow> P (k, v)"
  by (induction al) (auto split: if_splits)

lemma objeto_actual_saldo:
  "saldos_no_negativos s \<Longrightarrow> objeto_actual s = Some c \<Longrightarrow> 0 \<le> saldo c"
  unfolding saldos_no_negativos_def objeto_actual_def
  by (auto split: option.splits dest: list_all_map_of)

lemma snn_registrar [simp]:
  "saldos_no_negativos (registrar_transaccion ahora tipo monto estado detalle s)
     = saldos_no_negativos s"
  by (simp add: saldos_no_negativos_def registrar_transaccion_def Let_def)

lemma snn_poner_actual:
  "saldos_no_negativos s \<Longrightarrow> 0 \<le> saldo c \<Longrightarrow> saldos_no_negativos (poner_actual s c)"
  by (auto simp: saldos_no_negativos_def poner_actual_def split: option.splits
      intro: list_all_update)

lemma snn_update:
  "saldos_no_negativos s \<Longrightarrow> 0 \<le> saldo c
     \<Longrightarrow> saldos_no_negativos (s\<lparr>cuentas := AList.update k c (cuentas s)\<rparr>)"
  by (auto simp: saldos_no_negativos_def intro: list_all_update)

lemma saldo_puede_retirar: "saldo (snd (puede_retirar hoy c monto)) = saldo c"
  by (simp add: puede_retirar_def Let_def)

lemma puede_retirar_pruebas:
  "fst (fst (puede_retirar hoy c monto))
     \<Longrightarrow> \<not> saldo c < monto \<and> \<not> LIMITE_RETIRO_TRANSACCION < monto"
  by (simp add: puede_retirar_def Let_def split: if_splits)

lemma saldo_retirar:
  assumes "0 \<le> saldo c" and "monto \<noteq> NaN"
  shows "0 \<le> saldo (snd (retirar hoy c monto))"
proof (cases "fst (fst (puede_retirar hoy c monto))")
  case True
  from puede_retirar_pruebas [OF True] assms have "0 \<le> saldo c - monto"
    by (auto simp: LIMITE_RETIRO_TRANSACCION_def intro: resta_no_negativa)
  with True saldo_puede_retirar [of hoy c monto] show ?thesis
    by (auto simp: retirar_def split: prod.splits)
next
  case False
  with assms(1) saldo_puede_retirar [of hoy c monto] show ?thesis
    by (auto simp: retirar_def split: prod.splits)
qed

lemma saldo_depositar: "0 \<le> saldo c \<Longrightarrow> 0 \<le> saldo (snd (depositar c monto))"
  by (simp add: depositar_def suma_no_negativa)

lemma saldo_cambiar_pin: "saldo (snd (cambiar_pin h c a n)) = saldo c"
  by (simp add: cambiar_pin_def)

lemma snn_bucle_pin:
  "saldos_no_negativos s \<Longrightarrow> 0 \<le> saldo cuenta
     \<Longrightarrow> saldos_no_negativos (snd (bucle_pin h ahora numero pins intentos cuenta s))"
proof (induction intentos arbitrary: cuenta s)
  case Nil
  then show ?case by simp
next
  case (Cons intento resto)
  have a: "saldos_no_negativos (s\<lparr>cuentas := AList.update numero c (cuentas s)\<rparr>)"
    if "saldo c = saldo cuenta" for c
    using Cons.prems that by (simp add: snn_update)
  have b: "saldos_no_negativos
             (s\<lparr>cuenta_actual := x, sesion_activa := y,
                  cuentas := AList.update numero c (cuentas s)\<rparr>)"
    if "saldo c = saldo cuenta" for c x y
    using a [OF that] by (simp add: saldos_no_negativos_def)
  show ?case
    using Cons.prems by (simp add: Let_def a b Cons.IH)
qed

lemma snn_autenticar:
  "saldos_no_negativos s \<Longrightarrow> saldos_no_negativos (snd (autenticar_usuario h ahora numero pins s))"
  unfolding autenticar_usuario_def
  by (auto split: option.splits intro!: snn_bucle_pin
      dest: list_all_map_of simp: saldos_no_negativos_def[of s])

lemma snn_procesar_retiro:
  assumes inv: "saldos_no_negativos s" and m: "monto \<noteq> NaN"
    and r: "procesar_retiro hoy hoy2 ahora confirma monto s = Inr s1"
  shows "saldos_no_negativos s1"
proof -
  from r obtain c where c: "objeto_actual s = Some c"
    by (auto simp: procesar_retiro_def split: option.splits)
  define c1 where "c1 = snd (puede_retirar hoy c monto)"
  define c2 where "c2 = snd (retirar hoy2 c1 monto)"
  have p0: "0 \<le> saldo c" using inv c by (rule objeto_actual_saldo)
  have p1: "0 \<le> saldo c1" using p0 by (simp add: c1_def saldo_puede_retirar)
  have p2: "0 \<le> saldo c2" using p1 m unfolding c2_def by (rule saldo_retirar)
  have i1: "saldos_no_negativos (poner_actual s c1)"
    using inv p1 by (rule snn_poner_actual)
  have i2: "saldos_no_negativos (poner_actual (poner_actual s c1) c2)"
    using i1 p2 by (rule snn_poner_actual)
  from r c show ?thesis
    using i1 i2
    by (auto simp: procesar_retiro_def Let_def c1_def c2_def split: prod.splits if_splits)
qed

lemma montos_rapidos_numeros: "idx < length MONTOS_RAPIDOS \<Longrightarrow> MONTOS_RAPIDOS ! idx \<noteq> NaN"
proof -
  have "\<forall>m \<in> set MONTOS_RAPIDOS. m \<noteq> NaN"
    by (simp add: MONTOS_RAPIDOS_def numeral_flotante)
  then show "idx < length MONTOS_RAPIDOS \<Longrightarrow> MONTOS_RAPIDOS ! idx \<noteq> NaN"
    using nth_mem by blast
qed

lemma snn_menu_retiro:
  assumes inv: "saldos_no_negativos s"
    and n: "sin_nan (OpRetiro opcion confirma hoy hoy2 ahora)"
    and r: "menu_retiro hoy hoy2 ahora confirma opcion s = Inr s1"
  shows "saldos_no_negativos s1"
proof (cases opcion)
  case (Rapido idx)
  with inv r show ?thesis
    by (auto simp: menu_retiro_def split: if_splits
        dest: snn_procesar_retiro [OF inv montos_rapidos_numeros])
next
  case (OtroMonto entradas)
  with inv n r show ?thesis
    by (auto simp: menu_retiro_def split: option.splits if_splits
        dest: snn_procesar_retiro [OF inv])
next
  case Volver
  with inv r show ?thesis by (simp add: menu_retiro_def)
qed

lemma snn_procesar_deposito:
  "saldos_no_negativos s \<Longrightarrow> procesar_deposito ahora entradas confirma s = Inr s1
     \<Longrightarrow> saldos_no_negativos s1"
proof -
  assume inv: "saldos_no_negativos s" and r: "procesar_deposito ahora entradas confirma s = Inr s1"
  have "saldos_no_negativos (poner_actual s c1)"
    if "objeto_actual s = Some c" "depositar c monto = (b, c1)" for c monto b c1
    using snn_poner_actual [OF inv saldo_depositar [OF objeto_actual_saldo [OF inv that(1)], of monto]]
      that(2) by simp
  with inv r show ?thesis
    by (auto simp: procesar_deposito_def Let_def split: option.splits if_splits prod.splits)
qed

lemma snn_consultar_saldo:
  "saldos_no_negativos s \<Longrightarrow> consultar_saldo ahora s = Inr s1 \<Longrightarrow> saldos_no_negativos s1"
  by (auto simp: consultar_saldo_def split: option.splits)

lemma snn_cambiar_pin_cajero:
  "saldos_no_negativos s \<Longrightarrow> cambiar_pin_cajero h ahora a n k s = Inr s1
     \<Longrightarrow> saldos_no_negativos s1"
proof -
  assume inv: "saldos_no_negativos s" and r: "cambiar_pin_cajero h ahora a n k s = Inr s1"
  have "saldos_no_negativos (poner_actual s c1)"
    if "objeto_actual s = Some c" "cambiar_pin h c a n = (b, c1)" for c b c1
    using snn_poner_actual [OF inv, of c1] objeto_actual_saldo [OF inv that(1)]
      saldo_cambiar_pin [of h c a n] that(2) by simp
  with inv r show ?thesis
    by (auto simp: cambiar_pin_cajero_def Let_def split: option.splits if_splits prod.splits)
qed

lemma snn_cerrar_sesion:
  "saldos_no_negativos s \<Longrightarrow> saldos_no_negativos (cerrar_sesion confirma s)"
  by (simp add: cerrar_sesion_def saldos_no_negativos_def)

lemma snn_desbloquear:
  "saldos_no_negativos s \<Longrightarrow> saldos_no_negativos (desbloquear_cuenta numero confirma s)"
  unfolding desbloquear_cuenta_def
  by (auto split: option.splits intro!: snn_update
      dest: list_all_map_of simp: saldos_no_negativos_def [of s])

lemma snn_crear_cuenta:
  "saldos_no_negativos s \<Longrightarrow> saldo_entrada \<noteq> Some NaN
     \<Longrightarrow> saldos_no_negativos (crear_cuenta h ahora numero pin saldo_entrada s)"
  unfolding crear_cuenta_def
  by (auto split: option.splits intro!: snn_update no_menor_cero simp: CuentaUsuario_init_def)

lemma snn_limpiar_logs:
  "saldos_no_negativos s \<Longrightarrow> saldos_no_negativos (limpiar_logs confirma s)"
  by (simp add: limpiar_logs_def saldos_no_negativos_def)

lemma snn_seguir:
  "saldos_no_negativos s \<Longrightarrow> (\<And>s1. r = Inr s1 \<Longrightarrow> saldos_no_negativos s1)
     \<Longrightarrow> saldos_no_negativos (snd (seguir l s r))"
  by (cases r) (simp_all add: seguir_def)

lemma snn_paso_principal:
  "saldos_no_negativos s \<Longrightarrow> saldos_no_negativos (snd (paso_principal h ev s))"
proof -
  assume inv: "saldos_no_negativos s"
  have "saldos_no_negativos s1"
    if "autenticar_usuario h ahora numero pins s = (ok, s1)" for ahora numero pins ok s1
    using snn_autenticar [OF inv, of h ahora numero pins] that by simp
  with inv show ?thesis
    by (cases ev) (auto split: prod.splits)
qed

lemma snn_paso_usuario:
  "saldos_no_negativos s \<Longrightarrow> sin_nan ev \<Longrightarrow> saldos_no_negativos (snd (paso_usuario h ev s))"
proof (cases ev)
  case (OpRetiro opcion confirma hoy hoy2 ahora)
  assume "saldos_no_negativos s" "sin_nan ev"
  with OpRetiro show ?thesis
    by (auto intro!: snn_seguir elim: snn_menu_retiro)
qed (auto intro!: snn_seguir snn_cerrar_sesion
       elim: snn_procesar_deposito snn_consultar_saldo snn_cambiar_pin_cajero)

lemma snn_paso_admin:
  "saldos_no_negativos s \<Longrightarrow> sin_nan ev \<Longrightarrow> saldos_no_negativos (snd (paso_admin h ev s))"
  by (cases ev) (auto intro: snn_desbloquear snn_crear_cuenta snn_limpiar_logs)

lemma snn_paso:
  "saldos_no_negativos (snd st) \<Longrightarrow> sin_nan ev \<Longrightarrow> saldos_no_negativos (snd (paso h ev st))"
proof (cases st)
  case (Pair l s)
  assume "saldos_no_negativos (snd st)" "sin_nan ev"
  with Pair show ?thesis
    by (cases l) (simp_all add: snn_paso_principal snn_paso_usuario snn_paso_admin)
qed

lemma snn_ejecutar:
  "saldos_no_negativos (snd st) \<Longrightarrow> list_all sin_nan evs
     \<Longrightarrow> saldos_no_negativos (snd (ejecutar h evs st))"
  unfolding ejecutar_def
  by (induction evs arbitrary: st) (simp_all add: snn_paso)

lemma snn_init:
  "list_all (\<lambda>(k, c). 0 \<le> saldo c) cs
     \<Longrightarrow> saldos_no_negativos (CajeroAutomatico_init h ahora cs ts)"
  by (simp add: CajeroAutomatico_init_def crear_cuenta_demo_def saldos_no_negativos_def
        CuentaUsuario_init_def Let_def flotante_eval)

lemma cajero_demo_eq:
  "cajero_demo = \<lparr>cuentas = [(''123456'', cuenta_demo)], transacciones = [],
                   cuenta_actual = None, sesion_activa = False\<rparr>"
  by (simp add: cajero_demo_def CajeroAutomatico_init_def crear_cuenta_demo_def cuenta_demo_def)

lemma upto3: "[0..<INTENTOS_PIN_MAXIMOS] = [0, 1, 2]"
  by (simp add: INTENTOS_PIN_MAXIMOS_def upt_rec)

text \<open>
  The demo account (balance 100 000) logs in, withdraws 50 000 and deposits 250: the
  balance is 50 250.
\<close>

lemma ejemplo_saldo:
  "map (\<lambda>(k, c). (k, saldo c))
     (cuentas (snd (ejecutar digest_ejemplo eventos_demo (MenuPrincipal, cajero_demo))))
   = [(''123456'', 50250)]"
  by (simp add: ejecutar_def eventos_demo_def cajero_demo_eq autenticar_usuario_def upto3
        verifica_demo cuenta_demo_campos registrar_transaccion_def objeto_actual_def
        menu_retiro_def MONTOS_RAPIDOS_def procesar_retiro_def puede_retirar_def retirar_def
        poner_actual_def seguir_def procesar_deposito_def depositar_def Let_def
        LIMITE_RETIRO_TRANSACCION_def LIMITE_RETIRO_DIARIO_def flotante_eval)

text \<open>
  As long as no withdrawal prompt returns \<open>nan\<close> and no account is created with the
  initial balance \<open>nan\<close>, no balance becomes negative or \<open>nan\<close>: if every account of
  the engine has \<open>saldo >= 0\<close>, then so has every account after any sequence of events of
  the program, from any menu. The amounts may be infinite. \<open>retirar\<close> and \<open>depositar\<close>
  are characterised by their tests: a withdrawal is committed exactly when none of the
  three comparisons of \<open>puede_retirar\<close> is true, a deposit exactly when \<open>monto > 0\<close>, and
  a refused deposit changes nothing.
\<close>

lemma saldo_no_negativo_sin_nan:
  "saldos_no_negativos s \<Longrightarrow> list_all sin_nan evs
     \<Longrightarrow> saldos_no_negativos (snd (ejecutar h evs (l, s)))"
  using snn_ejecutar [of "(l, s)" evs h] by simp

lemma retirar_pruebas:
  "fst (retirar hoy c monto) \<longleftrightarrow>
     \<not> saldo c < monto \<and> \<not> monto > LIMITE_RETIRO_TRANSACCION
     \<and> \<not> (if ultimo_retiro_fecha c = Some hoy then retiros_diarios c else 0) + monto
           > LIMITE_RETIRO_DIARIO"
  by (simp add: retirar_def puede_retirar_def Let_def)

lemma depositar_efecto:
  "depositar c monto = (if 0 < monto then (True, c\<lparr>saldo := saldo c + monto\<rparr>) else (False, c))"
  by (simp add: depositar_def)

text \<open>
  Claim C1. The balance does not stay non-negative on every sequence of operations: the
  comparisons that guard it are all false on \<open>nan\<close>. The prompt of a withdrawal returns
  \<open>nan\<close> when \<open>nan\<close> is typed (\<open>monto <= 0\<close> is false), \<open>retirar\<close> commits the
  withdrawal of \<open>nan\<close> from the demo account although \<open>saldo >= monto\<close> is false, and
  the balance is \<open>nan\<close> afterwards, so \<open>saldo >= 0\<close> no longer holds. In the same way
  the test \<open>saldo_inicial < 0\<close> of \<open>crear_cuenta\<close> lets the initial balance \<open>nan\<close>
  through.
\<close>

theorem retiro_nan:
  "saldos_no_negativos cajero_demo
   \<and> solicitar_monto [Numero NaN] = Some NaN
   \<and> fst (retirar HOY cuenta_demo NaN)
   \<and> \<not> saldo cuenta_demo \<ge> NaN
   \<and> saldo (snd (retirar HOY cuenta_demo NaN)) = NaN
   \<and> map (\<lambda>(k, c). (k, saldo c))
        (cuentas (snd (ejecutar digest_ejemplo eventos_nan (MenuPrincipal, cajero_demo))))
      = [(''123456'', NaN)]
   \<and> \<not> saldos_no_negativos (snd (ejecutar digest_ejemplo eventos_nan (MenuPrincipal, cajero_demo)))
   \<and> map (\<lambda>(k, c). (k, saldo c))
        (cuentas (snd (ejecutar digest_ejemplo eventos_cuenta_nan (MenuPrincipal, cajero_demo))))
      = [(''123456'', 100000), (''654321'', NaN)]
   \<and> \<not> saldos_no_negativos
         (snd (ejecutar digest_ejemplo eventos_cuenta_nan (MenuPrincipal, cajero_demo)))"
proof -
  have i: "saldos_no_negativos cajero_demo"
    by (simp add: cajero_demo_eq saldos_no_negativos_def cuenta_demo_campos flotante_eval)
  have p: "solicitar_monto [Numero NaN] = Some NaN"
    by (simp add: flotante_eval)
  have r: "retirar HOY cuenta_demo NaN
             = (True, cuenta_demo\<lparr>retiros_diarios := NaN, ultimo_retiro_fecha := Some HOY,
                                   saldo := NaN\<rparr>)"
    by (simp add: retirar_def puede_retirar_def cuenta_demo_campos
          LIMITE_RETIRO_TRANSACCION_def LIMITE_RETIRO_DIARIO_def flotante_eval)
  have n: "\<not> saldo cuenta_demo \<ge> NaN"
    by (simp add: cuenta_demo_campos flotante_eval)
  have e: "map (\<lambda>(k, c). (k, saldo c))
             (cuentas (snd (ejecutar digest_ejemplo eventos_nan (MenuPrincipal, cajero_demo))))
           = [(''123456'', NaN)]"
    by (simp add: ejecutar_def eventos_nan_def cajero_demo_eq autenticar_usuario_def upto3
          verifica_demo cuenta_demo_campos registrar_transaccion_def objeto_actual_def
          menu_retiro_def procesar_retiro_def puede_retirar_def retirar_def
          poner_actual_def seguir_def Let_def
          LIMITE_RETIRO_TRANSACCION_def LIMITE_RETIRO_DIARIO_def flotante_eval)
  have a: "map (\<lambda>(k, c). (k, saldo c))
             (cuentas (snd (ejecutar digest_ejemplo eventos_cuenta_nan
                              (MenuPrincipal, cajero_demo))))
           = [(''123456'', 100000), (''654321'', NaN)]"
    by (simp add: ejecutar_def eventos_cuenta_nan_def cajero_demo_eq autenticar_admin_def
          crear_cuenta_def isdigit_def es_digito_def CuentaUsuario_init_def
          cuenta_demo_campos flotante_eval)
  have z: "\<not> list_all (\<lambda>(k, c). 0 \<le> saldo c) cs"
    if "map (\<lambda>(k, c). (k, saldo c)) cs = xs" "(k, NaN) \<in> set xs" for cs xs k
    using that by (force simp: list_all_iff flotante_eval)
  have e1: "\<not> saldos_no_negativos
               (snd (ejecutar digest_ejemplo eventos_nan (MenuPrincipal, cajero_demo)))"
    unfolding saldos_no_negativos_def by (rule z [OF e, of "''123456''"]) simp
  have a1: "\<not> saldos_no_negativos
               (snd (ejecutar digest_ejemplo eventos_cuenta_nan (MenuPrincipal, cajero_demo)))"
    unfolding saldos_no_negativos_def by (rule z [OF a, of "''654321''"]) simp
  from i p r n e e1 a a1 show ?thesis by simp
qed

section \<open>Authentication and lockout\<close>


lemma cuentas_registrar [simp]:
  "cuentas (registrar_transaccion ahora tipo monto estado detalle s) = cuentas s"
  by (simp add: registrar_transaccion_def Let_def)

lemma map_of_update_same [simp]: "map_of (AList.update k v al) k = Some v"
  by (simp add: update_conv')

lemma map_of_update_other [simp]: "k' \<noteq> k \<Longrightarrow> map_of (AList.update k v al) k' = map_of al k'"
  by (simp add: update_conv')

lemma int3: "int INTENTOS_PIN_MAXIMOS = 3"
  by (simp add: INTENTOS_PIN_MAXIMOS_def)

lemma verificar_0000: "\<not> verificar_pin digest_ejemplo (cuenta_demo\<lparr>intentos_fallidos := n\<rparr>) ''0000''"
  by (simp add: verificar_pin_def verificar_pin_hash_def hash_pin_def cuenta_demo_campos
        digest_ejemplo_def)





section \<open>A withdrawal cancelled at the confirmation\<close>

lemma objeto_poner_actual:
  "objeto_actual s = Some c \<Longrightarrow> objeto_actual (poner_actual s c1) = Some c1"
  by (auto simp: objeto_actual_def poner_actual_def split: option.splits)

lemma objeto_registrar [simp]:
  "objeto_actual (registrar_transaccion ahora tipo monto estado detalle s) = objeto_actual s"
  by (cases "cuenta_actual s") (simp_all add: objeto_actual_def registrar_transaccion_def Let_def)

lemma numero_puede_retirar:
  "numero_cuenta (snd (puede_retirar hoy c monto)) = numero_cuenta c"
  by (simp add: puede_retirar_def Let_def)

text \<open>
  Claim C9, as stated: after a withdrawal declined at the confirmation, every field of the
  account is as before. It fails on the account whose last withdrawal was yesterday: a
  \<open>CANCELADA\<close> record is logged, but the daily total went from 1000 to 0 and the date
  of the last withdrawal from yesterday to today.
\<close>

theorem procesar_retiro_cancelado_counterexample:
  "(\<exists>s1. procesar_retiro HOY HOY AHORA False 100 cajero_ayer = Inr s1
      \<and> map (tr_estado) (transacciones s1) = [CANCELADA]
      \<and> cuentas s1 = [(''123456'',
            cuenta_ayer\<lparr>retiros_diarios := 0, ultimo_retiro_fecha := Some HOY\<rparr>)])
   \<and> cuentas cajero_ayer = [(''123456'', cuenta_ayer)]
   \<and> retiros_diarios cuenta_ayer = 1000
   \<and> ultimo_retiro_fecha cuenta_ayer = Some (Date 2024 1 1)"
  by (simp add: procesar_retiro_def cajero_ayer_def objeto_actual_def puede_retirar_def
        poner_actual_def registrar_transaccion_def Transaccion_init_def Let_def HOY_def
        cuenta_ayer_def cuenta_demo_campos LIMITE_RETIRO_TRANSACCION_def LIMITE_RETIRO_DIARIO_def
        flotante_eval)

text \<open>
  Claim C9, amended. When the check allows the withdrawal and the confirmation is
  declined, \<open>procesar_retiro\<close> logs one \<open>CANCELADA\<close> record with the amount and the
  account id, keeps the session, and leaves every account as it was, except that the
  account of the session, when its stored date is not today, has its daily total set to 0
  and its date set to today; its balance and its other fields are unchanged.
\<close>

theorem procesar_retiro_cancelado:
  assumes "objeto_actual s = Some c"
      and "fst (fst (puede_retirar hoy c monto))"
  shows "\<exists>s1. procesar_retiro hoy hoy2 ahora False monto s = Inr s1
     \<and> transacciones s1 =
         transacciones s @ [Transaccion_init ahora RETIRO monto CANCELADA (numero_cuenta c) []]
     \<and> cuenta_actual s1 = cuenta_actual s \<and> sesion_activa s1 = sesion_activa s
     \<and> cuentas s1 = cuentas (poner_actual s
          (if ultimo_retiro_fecha c = Some hoy then c
           else c\<lparr>retiros_diarios := 0, ultimo_retiro_fecha := Some hoy\<rparr>))
     \<and> objeto_actual s1 =
         Some (if ultimo_retiro_fecha c = Some hoy then c
               else c\<lparr>retiros_diarios := 0, ultimo_retiro_fecha := Some hoy\<rparr>)"
proof -
  define c1 where "c1 = (if ultimo_retiro_fecha c = Some hoy then c
               else c\<lparr>retiros_diarios := 0, ultimo_retiro_fecha := Some hoy\<rparr>)"
  from assms(2) have p: "puede_retirar hoy c monto = ((True, ''OK''), c1)"
    by (auto simp: puede_retirar_def Let_def c1_def split: if_splits)
  have o: "objeto_actual (poner_actual s c1) = Some c1"
    using assms(1) by (rule objeto_poner_actual)
  have n: "numero_cuenta c1 = numero_cuenta c" by (simp add: c1_def)
  have "procesar_retiro hoy hoy2 ahora False monto s
          = Inr (registrar_transaccion ahora RETIRO monto CANCELADA [] (poner_actual s c1))"
    using assms(1) p by (simp add: procesar_retiro_def)
  moreover have "transacciones (registrar_transaccion ahora RETIRO monto CANCELADA [] (poner_actual s c1))
      = transacciones s @ [Transaccion_init ahora RETIRO monto CANCELADA (numero_cuenta c) []]"
    using o n by (simp add: registrar_transaccion_def poner_actual_def split: option.splits)
  moreover have "cuenta_actual (registrar_transaccion ahora RETIRO monto CANCELADA [] (poner_actual s c1))
      = cuenta_actual s"
      "sesion_activa (registrar_transaccion ahora RETIRO monto CANCELADA [] (poner_actual s c1))
      = sesion_activa s"
    by (simp_all add: registrar_transaccion_def poner_actual_def Let_def split: option.splits)
  ultimately show ?thesis
    using o unfolding c1_def [symmetric] by simp
qed

text \<open>On the day of the last withdrawal the cancelled attempt leaves the account as it was.\<close>

theorem procesar_retiro_cancelado_witness:
  "\<exists>s1. procesar_retiro (Date 2024 1 1) HOY AHORA False 100 cajero_ayer = Inr s1
     \<and> map tr_estado (transacciones s1) = [CANCELADA]
     \<and> objeto_actual s1 = Some cuenta_ayer"
proof -
  have o: "objeto_actual cajero_ayer = Some cuenta_ayer"
    by (simp add: objeto_actual_def cajero_ayer_def)
  have p: "fst (fst (puede_retirar (Date 2024 1 1) cuenta_ayer 100))"
    by (simp add: puede_retirar_def cuenta_ayer_def cuenta_demo_campos
          LIMITE_RETIRO_TRANSACCION_def LIMITE_RETIRO_DIARIO_def flotante_eval)
  from procesar_retiro_cancelado [OF o p, of HOY AHORA]
  show ?thesis
    by (auto simp: cuenta_ayer_def cajero_ayer_def Transaccion_init_def)
qed

section \<open>Locked accounts\<close>

lemma misma_sesion_refl: "misma_sesion s s"
  by (simp add: misma_sesion_def)

lemma misma_sesion_registrar:
  "misma_sesion s s1 \<Longrightarrow> misma_sesion s (registrar_transaccion ahora tipo monto estado detalle s1)"
  by (simp add: misma_sesion_def) (simp add: registrar_transaccion_def Let_def)

lemma misma_sesion_poner:
  "objeto_actual s = Some c \<Longrightarrow> bloqueada c1 = bloqueada c \<Longrightarrow> misma_sesion s (poner_actual s c1)"
  by (auto simp: misma_sesion_def objeto_actual_def poner_actual_def split: option.splits)

lemma misma_sesion_trans:
  "misma_sesion s s1 \<Longrightarrow> misma_sesion s1 s2 \<Longrightarrow> misma_sesion s s2"
  unfolding misma_sesion_def by (metis (no_types, lifting))

lemma bloqueada_puede_retirar: "bloqueada (snd (puede_retirar hoy c monto)) = bloqueada c"
  by (simp add: puede_retirar_def Let_def)

lemma bloqueada_retirar: "bloqueada (snd (retirar hoy c monto)) = bloqueada c"
  using bloqueada_puede_retirar [of hoy c monto]
  by (auto simp: retirar_def Let_def split: prod.splits)

lemma bloqueada_depositar: "bloqueada (snd (depositar c monto)) = bloqueada c"
  by (simp add: depositar_def)

lemma bloqueada_cambiar_pin: "bloqueada (snd (cambiar_pin h c a n)) = bloqueada c"
  by (simp add: cambiar_pin_def)

lemma ms_procesar_retiro:
  assumes "procesar_retiro hoy hoy2 ahora confirma monto s = Inr s1"
  shows "misma_sesion s s1"
proof -
  from assms obtain c where c: "objeto_actual s = Some c"
    by (auto simp: procesar_retiro_def split: option.splits)
  define c1 where "c1 = snd (puede_retirar hoy c monto)"
  define c2 where "c2 = snd (retirar hoy2 c1 monto)"
  have m1: "misma_sesion s (poner_actual s c1)"
    using c by (rule misma_sesion_poner) (simp add: c1_def bloqueada_puede_retirar)
  have o1: "objeto_actual (poner_actual s c1) = Some c1"
    using c by (rule objeto_poner_actual)
  have "misma_sesion (poner_actual s c1) (poner_actual (poner_actual s c1) c2)"
    using o1 by (rule misma_sesion_poner) (simp add: c2_def bloqueada_retirar)
  with m1 have m2: "misma_sesion s (poner_actual (poner_actual s c1) c2)"
    by (rule misma_sesion_trans)
  from assms c show ?thesis
    using m1 m2
    by (auto simp: procesar_retiro_def Let_def c1_def c2_def misma_sesion_registrar
        split: prod.splits if_splits)
qed

lemma ms_menu_retiro:
  "menu_retiro hoy hoy2 ahora confirma opcion s = Inr s1 \<Longrightarrow> misma_sesion s s1"
  by (auto simp: menu_retiro_def misma_sesion_refl
      split: opcion_retiro.splits option.splits if_splits dest: ms_procesar_retiro)

lemma ms_procesar_deposito:
  assumes "procesar_deposito ahora entradas confirma s = Inr s1"
  shows "misma_sesion s s1"
proof -
  have "misma_sesion s (poner_actual s c1)"
    if "objeto_actual s = Some c" "depositar c monto = (b, c1)" for c monto b c1
    using that(1) bloqueada_depositar [of c monto] that(2)
    by (intro misma_sesion_poner) simp_all
  with assms show ?thesis
    by (auto simp: procesar_deposito_def Let_def misma_sesion_refl misma_sesion_registrar
        split: option.splits if_splits prod.splits)
qed

lemma ms_consultar_saldo: "consultar_saldo ahora s = Inr s1 \<Longrightarrow> misma_sesion s s1"
  by (auto simp: consultar_saldo_def misma_sesion_refl misma_sesion_registrar
      split: option.splits)

lemma ms_cambiar_pin_cajero:
  assumes "cambiar_pin_cajero h ahora a n k s = Inr s1"
  shows "misma_sesion s s1"
proof -
  have "misma_sesion s (poner_actual s c1)"
    if "objeto_actual s = Some c" "cambiar_pin h c a n = (b, c1)" for c b c1
    using that(1) bloqueada_cambiar_pin [of h c a n] that(2)
    by (intro misma_sesion_poner) simp_all
  with assms show ?thesis
    by (auto simp: cambiar_pin_cajero_def Let_def misma_sesion_refl misma_sesion_registrar
        split: option.splits if_splits prod.splits)
qed

text \<open>Every step inside the user menu either stays with the same session or leaves the menu.\<close>

lemma paso_usuario_sesion:
  "paso_usuario h ev s = (l1, s1) \<Longrightarrow>
     (l1 = MenuUsuario \<and> misma_sesion s s1) \<or> (l1 = Terminado \<and> s1 = s)
     \<or> (l1 = MenuPrincipal \<and> cuentas s1 = cuentas s)"
  by (cases ev)
     (auto simp: seguir_def cerrar_sesion_def misma_sesion_refl split: sum.splits if_splits
        dest: ms_menu_retiro ms_procesar_deposito ms_consultar_saldo ms_cambiar_pin_cajero)

lemma bucle_pin_otras:
  "k \<noteq> numero \<Longrightarrow>
     map_of (cuentas (snd (bucle_pin h ahora numero pins intentos cuenta s))) k
       = map_of (cuentas s) k"
  by (induction intentos arbitrary: cuenta s) (simp_all add: Let_def)

lemma autenticar_bloqueada_intacta:
  assumes "map_of (cuentas s) k = Some c" and "bloqueada c"
  shows "map_of (cuentas (snd (autenticar_usuario h ahora numero pins s))) k = Some c"
proof (cases "numero = k")
  case True
  with assms show ?thesis by (simp add: autenticar_usuario_def)
next
  case False
  then have "k \<noteq> numero" by simp
  with assms(1) show ?thesis
    by (simp add: autenticar_usuario_def bucle_pin_otras split: option.splits)
qed

lemma autenticar_exito_sana:
  assumes "autenticar_usuario h ahora numero pins s = (True, s1)"
  shows "\<exists>c1. objeto_actual s1 = Some c1 \<and> \<not> bloqueada c1"
proof -
  from assms obtain cuenta where c: "map_of (cuentas s) numero = Some cuenta" "\<not> bloqueada cuenta"
    by (auto simp: autenticar_usuario_def split: option.splits if_splits)
  have o: "objeto_actual (s2\<lparr>cuenta_actual := Some numero, sesion_activa := True,
                 cuentas := AList.update numero c1 (cuentas s2)\<rparr>) = Some c1" for s2 c1
    by (simp add: objeto_actual_def)
  from assms c show ?thesis
    by (auto simp: autenticar_usuario_def upto3 Let_def int3 o split: if_splits)
qed

lemma desbloquear_otra:
  assumes "map_of (cuentas s) k = Some c" and "\<not> (numero = k \<and> confirma)"
  shows "map_of (cuentas (desbloquear_cuenta numero confirma s)) k = Some c"
  using assms by (cases "numero = k") (auto simp: desbloquear_cuenta_def split: option.splits)

lemma desbloquear_esta:
  assumes "map_of (cuentas s) k = Some c" and "bloqueada c"
  shows "map_of (cuentas (desbloquear_cuenta k True s)) k
           = Some (c\<lparr>bloqueada := False, intentos_fallidos := 0\<rparr>)"
  using assms by (simp add: desbloquear_cuenta_def)

lemma crear_cuenta_otras:
  assumes "map_of (cuentas s) k = Some c"
  shows "map_of (cuentas (crear_cuenta h ahora numero pin saldo_entrada s)) k = Some c"
proof -
  from assms have "k \<in> fst ` set (cuentas s)"
    by (metis map_of_SomeD fst_conv image_eqI)
  then have "numero \<notin> fst ` set (cuentas s) \<Longrightarrow> k \<noteq> numero" by auto
  with assms show ?thesis
    by (auto simp: crear_cuenta_def split: option.splits)
qed

lemma limpiar_logs_cuentas [simp]: "cuentas (limpiar_logs confirma s) = cuentas s"
  by (simp add: limpiar_logs_def)

lemma sesion_sana_paso: "sesion_sana st \<Longrightarrow> sesion_sana (paso h ev st)"
proof (cases st)
  case (Pair l s)
  assume inv: "sesion_sana st"
  show ?thesis
  proof (cases l)
    case MenuPrincipal
    have "sesion_sana (paso_principal h ev s)"
    proof (cases ev)
      case (AccesoUsuario numero pins ahora)
      obtain ok s1 where r: "autenticar_usuario h ahora numero pins s = (ok, s1)"
        by (cases "autenticar_usuario h ahora numero pins s")
      show ?thesis
      proof (cases ok)
        case True
        with r autenticar_exito_sana [of h ahora numero pins s s1] AccesoUsuario
        show ?thesis by (auto simp: sesion_sana_def)
      next
        case False
        with r AccesoUsuario show ?thesis by (simp add: sesion_sana_def)
      qed
    qed (simp_all add: sesion_sana_def)
    with Pair MenuPrincipal show ?thesis by simp
  next
    case MenuUsuario
    show ?thesis
    proof (cases "sesion_activa s")
      case False
      with Pair MenuUsuario show ?thesis by (simp add: sesion_sana_def)
    next
      case True
      obtain l1 s1 where r: "paso_usuario h ev s = (l1, s1)"
        by (cases "paso_usuario h ev s")
      from inv Pair MenuUsuario obtain c where c: "objeto_actual s = Some c" "\<not> bloqueada c"
        by (auto simp: sesion_sana_def split: option.splits)
      from paso_usuario_sesion [OF r] c have "sesion_sana (l1, s1)"
        by (auto simp: sesion_sana_def misma_sesion_def)
      with Pair MenuUsuario True r show ?thesis by simp
    qed
  next
    case MenuAdmin
    have "fst (paso_admin h ev s) \<noteq> MenuUsuario" by (cases ev) simp_all
    then have "sesion_sana (paso_admin h ev s)"
      by (cases "paso_admin h ev s") (auto simp: sesion_sana_def split: lugar.splits)
    with Pair MenuAdmin show ?thesis by simp
  next
    case Terminado
    with Pair show ?thesis by (simp add: sesion_sana_def)
  qed
qed

lemma sesion_sana_ejecutar: "sesion_sana st \<Longrightarrow> sesion_sana (ejecutar h evs st)"
  unfolding ejecutar_def by (induction evs arbitrary: st) (simp_all add: sesion_sana_paso)

lemma bloqueada_paso:
  assumes inv: "sesion_sana st"
      and k: "map_of (cuentas (snd st)) k = Some c" and b: "bloqueada c"
      and ev: "ev \<noteq> AdmDesbloquear k True"
  shows "map_of (cuentas (snd (paso h ev st))) k = Some c"
proof (cases st)
  case (Pair l s)
  with k have ks: "map_of (cuentas s) k = Some c" by simp
  show ?thesis
  proof (cases l)
    case MenuPrincipal
    have "map_of (cuentas s1) k = Some c"
      if "autenticar_usuario h ahora numero pins s = (ok, s1)" for ahora numero pins ok s1
      using autenticar_bloqueada_intacta [OF ks b, of h ahora numero pins] that by simp
    with ks have "map_of (cuentas (snd (paso_principal h ev s))) k = Some c"
      by (cases ev) (auto split: prod.splits)
    with Pair MenuPrincipal show ?thesis by simp
  next
    case MenuUsuario
    show ?thesis
    proof (cases "sesion_activa s")
      case False
      with Pair MenuUsuario ks show ?thesis by simp
    next
      case True
      obtain l1 s1 where r: "paso_usuario h ev s = (l1, s1)"
        by (cases "paso_usuario h ev s")
      from inv Pair MenuUsuario obtain ca where ca: "objeto_actual s = Some ca" "\<not> bloqueada ca"
        by (auto simp: sesion_sana_def split: option.splits)
      from ca ks b have "cuenta_actual s \<noteq> Some k"
        by (auto simp: objeto_actual_def)
      with paso_usuario_sesion [OF r] ks have "map_of (cuentas s1) k = Some c"
        by (auto simp: misma_sesion_def)
      with Pair MenuUsuario True r show ?thesis by simp
    qed
  next
    case MenuAdmin
    have "map_of (cuentas (snd (paso_admin h ev s))) k = Some c"
      using ks ev by (cases ev) (auto intro: desbloquear_otra crear_cuenta_otras)
    with Pair MenuAdmin show ?thesis by simp
  next
    case Terminado
    with Pair ks show ?thesis by simp
  qed
qed

lemma bloqueada_ejecutar:
  "sesion_sana st \<Longrightarrow> map_of (cuentas (snd st)) k = Some c \<Longrightarrow> bloqueada c
     \<Longrightarrow> AdmDesbloquear k True \<notin> set evs
     \<Longrightarrow> map_of (cuentas (snd (ejecutar h evs st))) k = Some c"
  unfolding ejecutar_def
proof (induction evs arbitrary: st)
  case Nil
  then show ?case by simp
next
  case (Cons ev evs)
  from Cons.prems have "ev \<noteq> AdmDesbloquear k True" by auto
  with Cons.prems have "map_of (cuentas (snd (paso h ev st))) k = Some c"
    by (intro bloqueada_paso) simp_all
  moreover have "sesion_sana (paso h ev st)"
    using Cons.prems(1) by (rule sesion_sana_paso)
  ultimately show ?case using Cons.IH Cons.prems by simp
qed

lemma tras_bloqueo:
  "fst (ejecutar digest_ejemplo eventos_bloqueo (MenuPrincipal, cajero_demo)) = MenuAdmin"
  "cuentas (snd (ejecutar digest_ejemplo eventos_bloqueo (MenuPrincipal, cajero_demo)))
     = [(''123456'', cuenta_bloqueada)]"
  by (simp_all add: ejecutar_def eventos_bloqueo_def cajero_demo_eq autenticar_usuario_def upto3
        Let_def int3 verificar_0000 [of 0, simplified] verificar_pin_def verificar_pin_hash_def
        hash_pin_def digest_ejemplo_def cuenta_demo_campos autenticar_admin_def
        cuenta_bloqueada_def)

text \<open>
  Claim C4. In every state the program reaches from its main menu, an account that is
  locked stays exactly as it is (balance, lock and every other field) through any
  sequence of events that does not contain its confirmed unlocking by the administrator:
  no withdrawal or deposit touches it. \<open>retirar\<close> and \<open>depositar\<close> themselves do not
  test the lock; the program only operates on the account of a session, authentication
  refuses a locked account, and no account is locked while control is in the user menu.
  The confirmed unlocking, in the administrator menu, sets the lock to false and the
  failed attempts to 0 and changes nothing else.
\<close>

theorem cuenta_bloqueada_intacta:
  assumes "st = ejecutar h evs (MenuPrincipal, s0)"
      and "map_of (cuentas (snd st)) k = Some c" and "bloqueada c"
  shows "(AdmDesbloquear k True \<notin> set evs2
            \<longrightarrow> map_of (cuentas (snd (ejecutar h evs2 st))) k = Some c)
         \<and> (fst st = MenuAdmin
            \<longrightarrow> map_of (cuentas (snd (paso h (AdmDesbloquear k True) st))) k
                  = Some (c\<lparr>bloqueada := False, intentos_fallidos := 0\<rparr>))"
proof -
  have "sesion_sana (MenuPrincipal, s0)" by (simp add: sesion_sana_def)
  then have inv: "sesion_sana st"
    unfolding assms(1) by (rule sesion_sana_ejecutar)
  have a: "AdmDesbloquear k True \<notin> set evs2
            \<longrightarrow> map_of (cuentas (snd (ejecutar h evs2 st))) k = Some c"
    using bloqueada_ejecutar [OF inv assms(2,3)] by blast
  have b: "fst st = MenuAdmin
            \<longrightarrow> map_of (cuentas (snd (paso h (AdmDesbloquear k True) st))) k
                  = Some (c\<lparr>bloqueada := False, intentos_fallidos := 0\<rparr>)"
    using desbloquear_esta [OF _ assms(3), of "snd st" k] assms(2)
    by (cases st) auto
  from a b show ?thesis by blast
qed

text \<open>
  The demo account is locked by three wrong PINs. The right PIN and a deposit afterwards
  leave it untouched; the administrator's unlocking resets it.
\<close>

theorem cuenta_bloqueada_intacta_witness:
  "map_of (cuentas (snd (ejecutar digest_ejemplo eventos_bloqueo (MenuPrincipal, cajero_demo))))
      ''123456'' = Some cuenta_bloqueada
   \<and> bloqueada cuenta_bloqueada
   \<and> map_of (cuentas (snd (ejecutar digest_ejemplo eventos_despues
        (ejecutar digest_ejemplo eventos_bloqueo (MenuPrincipal, cajero_demo))))) ''123456''
      = Some cuenta_bloqueada
   \<and> map_of (cuentas (snd (paso digest_ejemplo (AdmDesbloquear ''123456'' True)
        (ejecutar digest_ejemplo eventos_bloqueo (MenuPrincipal, cajero_demo))))) ''123456''
      = Some (cuenta_bloqueada\<lparr>bloqueada := False, intentos_fallidos := 0\<rparr>)"
proof -
  have a: "map_of (cuentas (snd (ejecutar digest_ejemplo eventos_bloqueo
             (MenuPrincipal, cajero_demo)))) ''123456'' = Some cuenta_bloqueada"
    by (simp add: tras_bloqueo)
  have b: "bloqueada cuenta_bloqueada" by (simp add: cuenta_bloqueada_def)
  have n: "AdmDesbloquear ''123456'' True \<notin> set eventos_despues"
    by (simp add: eventos_despues_def)
  from cuenta_bloqueada_intacta [OF refl a b, of eventos_despues] n tras_bloqueo(1) a b
  show ?thesis by blast
qed

section \<open>Saving and loading\<close>

lemma TipoTransaccion_of_value [simp]:
  "TipoTransaccion_of (VStr (TipoTransaccion_value t)) = Inr t"
  by (cases t) (simp_all add: TipoTransaccion_of_def)

lemma EstadoTransaccion_of_value [simp]:
  "EstadoTransaccion_of (VStr (EstadoTransaccion_value e)) = Inr e"
  by (cases e) (simp_all add: EstadoTransaccion_of_def)

lemma Transaccion_ida_vuelta:
  "hora_reversible L (tr_timestamp t)
     \<Longrightarrow> Transaccion_from_dict L (Transaccion_to_dict L t) = Inr (transaccion_cargada t)"
  by (simp add: Transaccion_from_dict_def Transaccion_to_dict_def transaccion_cargada_def
        ligar_def hora_reversible_def)

lemma CuentaUsuario_ida_vuelta:
  assumes "cuenta_reversible L c"
  shows "CuentaUsuario_from_dict L (CuentaUsuario_to_dict L c) = Inr (cuenta_cargada c)"
proof (cases "ultimo_retiro_fecha c")
  case None
  with assms show ?thesis
    by (simp add: CuentaUsuario_from_dict_def CuentaUsuario_to_dict_def cuenta_cargada_def
          ligar_def cuenta_reversible_def hora_reversible_def)
next
  case (Some d)
  with assms have "fecha_reversible L d" by (simp add: cuenta_reversible_def)
  then obtain t where t: "date_isoformat L d \<noteq> []"
      "datetime_fromisoformat L (date_isoformat L d) = Inr t" "fecha_de t = d"
    by (auto simp: fecha_reversible_def split: sum.splits)
  with assms Some show ?thesis
    by (simp add: CuentaUsuario_from_dict_def CuentaUsuario_to_dict_def cuenta_cargada_def
          ligar_def cuenta_reversible_def hora_reversible_def)
qed

lemma update_nueva: "k \<notin> fst ` set al \<Longrightarrow> AList.update k v al = al @ [(k, v)]"
  by (induction al) auto

lemma cargar_transacciones_guardadas:
  "list_all (\<lambda>t. hora_reversible L (tr_timestamp t)) ts
     \<Longrightarrow> cargar_transacciones L (map (Transaccion_to_dict L) ts) acc
           = (acc @ map transaccion_cargada ts, None)"
  by (induction ts arbitrary: acc) (simp_all add: Transaccion_ida_vuelta)

lemma cargar_cuentas_guardadas:
  "list_all (\<lambda>(k, c). cuenta_reversible L c) cs
     \<Longrightarrow> list_all (\<lambda>(k, c). numero_cuenta c = k) cs
     \<Longrightarrow> distinct (map fst cs)
     \<Longrightarrow> (\<forall>k \<in> fst ` set cs. VStr k \<notin> fst ` set acc)
     \<Longrightarrow> cargar_cuentas L (map (\<lambda>(k, c). CuentaUsuario_to_dict L c) cs) acc
           = (acc @ map (\<lambda>(k, c). (VStr k, cuenta_cargada c)) cs, None)"
proof (induction cs arbitrary: acc)
  case Nil
  then show ?case by simp
next
  case (Cons p cs)
  obtain k c where p: "p = (k, c)" by (cases p)
  from Cons.prems p have c: "cuenta_reversible L c" "numero_cuenta c = k"
      and nk: "VStr k \<notin> fst ` set acc" and kcs: "k \<notin> fst ` set cs"
    by auto
  have o: "o_numero_cuenta (cuenta_cargada c) = VStr k"
    using c(2) by (simp add: cuenta_cargada_def)
  have fresh: "\<forall>k' \<in> fst ` set cs. VStr k' \<notin> fst ` set (acc @ [(VStr k, cuenta_cargada c)])"
    using Cons.prems(4) kcs by auto
  have "cargar_cuentas L (map (\<lambda>(k, c). CuentaUsuario_to_dict L c) (p # cs)) acc
          = cargar_cuentas L (map (\<lambda>(k, c). CuentaUsuario_to_dict L c) cs)
              (acc @ [(VStr k, cuenta_cargada c)])"
    using p c(1) o nk by (simp add: CuentaUsuario_ida_vuelta update_nueva)
  also have "\<dots> = ((acc @ [(VStr k, cuenta_cargada c)])
                      @ map (\<lambda>(k, c). (VStr k, cuenta_cargada c)) cs, None)"
    using Cons.prems p fresh by (intro Cons.IH) simp_all
  finally show ?case using p by simp
qed

lemma length_ultimas: "length (ultimas n xs) = min n (length xs)"
  by (simp add: ultimas_def)

lemma ultimas_sufijo: "\<exists>viejas. xs = viejas @ ultimas n xs"
  unfolding ultimas_def by (metis append_take_drop_id)

lemma cuenta_cargada_inj: "inj cuenta_cargada"
proof (rule injI)
  fix a b assume "cuenta_cargada a = cuenta_cargada b"
  then show "a = b"
    by (cases a, cases b) (simp add: cuenta_cargada_def)
qed

lemma transaccion_cargada_inj: "inj transaccion_cargada"
proof (rule injI)
  fix a b assume "transaccion_cargada a = transaccion_cargada b"
  then show "a = b"
    by (cases a, cases b) (simp add: transaccion_cargada_def)
qed

lemma hora_ejemplo_1: "hora_reversible biblioteca_ejemplo (Datetime (Date 2024 1 1) 9 0 0 0)"
  by (simp add: hora_reversible_def biblioteca_ejemplo_def datetime_isoformat_ejemplo_def
        date_isoformat_ejemplo_def cuatro_cifras_def dos_cifras_def cifra_def
        datetime_fromisoformat_ejemplo_def valor_cifra_def)

lemma hora_ejemplo_2: "hora_reversible biblioteca_ejemplo AHORA"
  by (simp add: hora_reversible_def biblioteca_ejemplo_def datetime_isoformat_ejemplo_def
        date_isoformat_ejemplo_def cuatro_cifras_def dos_cifras_def cifra_def AHORA_def
        datetime_fromisoformat_ejemplo_def valor_cifra_def)

lemma hora_ejemplo_3: "hora_reversible biblioteca_ejemplo (Datetime HOY 10 31 7 250000)"
  by (simp add: hora_reversible_def biblioteca_ejemplo_def datetime_isoformat_ejemplo_def
        date_isoformat_ejemplo_def cuatro_cifras_def dos_cifras_def cifra_def HOY_def
        datetime_fromisoformat_ejemplo_def valor_cifra_def)

lemma fecha_ejemplo: "fecha_reversible biblioteca_ejemplo (Date 2024 1 1)"
  by (simp add: fecha_reversible_def biblioteca_ejemplo_def
        date_isoformat_ejemplo_def cuatro_cifras_def dos_cifras_def cifra_def
        datetime_fromisoformat_ejemplo_def valor_cifra_def)

lemma cuenta_demo_reversible: "cuenta_reversible biblioteca_ejemplo cuenta_demo"
  using hora_ejemplo_1
  by (simp add: cuenta_reversible_def cuenta_demo_def CuentaUsuario_init_def)

lemma cuenta_ayer_reversible: "cuenta_reversible biblioteca_ejemplo cuenta_ayer"
  using hora_ejemplo_1 fecha_ejemplo
  by (simp add: cuenta_reversible_def cuenta_ayer_def cuenta_demo_def CuentaUsuario_init_def)

text \<open>
  Claim C6. Loading what \<open>guardar_datos\<close> wrote gives back every account, in order and
  under its number, with every field as it was (\<open>cuenta_cargada\<close> and
  \<open>transaccion_cargada\<close> are injective, so nothing is lost), and the last
  \<open>min 1000 N\<close> of the \<open>N\<close> transactions in their order; the older ones are absent.
  This holds for accounts keyed by their number and for a library whose \<open>fromisoformat\<close>
  reads back the dates and times of the state as \<open>isoformat\<close> wrote them.
\<close>

theorem guardar_cargar:
  assumes "claves_son_numeros cs" and "estado_reversible L cs ts"
  shows "cargar_datos L (guardar_datos L True cs ts disco)
           = Inr (map (\<lambda>(k, c). (VStr k, cuenta_cargada c)) cs,
                  map transaccion_cargada (ultimas 1000 ts))
         \<and> length (ultimas 1000 ts) = min 1000 (length ts)
         \<and> (\<exists>viejas. ts = viejas @ ultimas 1000 ts)"
proof -
  have a: "cargar_cuentas L (map (\<lambda>(k, c). CuentaUsuario_to_dict L c) cs) []
             = (map (\<lambda>(k, c). (VStr k, cuenta_cargada c)) cs, None)"
    using assms cargar_cuentas_guardadas [of L cs "[]"]
    by (simp add: claves_son_numeros_def estado_reversible_def)
  have b: "cargar_transacciones L (map (Transaccion_to_dict L) (ultimas 1000 ts)) []
             = (map transaccion_cargada (ultimas 1000 ts), None)"
    using assms(2) cargar_transacciones_guardadas [of L "ultimas 1000 ts" "[]"]
    by (simp add: estado_reversible_def)
  have "cargar_datos L (guardar_datos L True cs ts disco)
           = Inr (map (\<lambda>(k, c). (VStr k, cuenta_cargada c)) cs,
                  map transaccion_cargada (ultimas 1000 ts))"
    by (simp add: cargar_datos_def guardar_datos_def datos_guardados_def cargar_documento_def
          ligar_def a b)
  then show ?thesis
    using length_ultimas [of 1000 ts] ultimas_sufijo [of ts 1000] by blast
qed

text \<open>One account with a last withdrawal date, two transactions, the example formats.\<close>

theorem guardar_cargar_witness:
  "claves_son_numeros cuentas_ejemplo
   \<and> estado_reversible biblioteca_ejemplo cuentas_ejemplo transacciones_ejemplo
   \<and> cargar_datos biblioteca_ejemplo
        (guardar_datos biblioteca_ejemplo True cuentas_ejemplo transacciones_ejemplo Ausente)
      = Inr ([(VStr ''123456'', cuenta_cargada cuenta_ayer)],
             map transaccion_cargada transacciones_ejemplo)"
proof -
  have a: "claves_son_numeros cuentas_ejemplo"
    by (simp add: claves_son_numeros_def cuentas_ejemplo_def cuenta_ayer_def cuenta_demo_campos)
  have u: "ultimas 1000 transacciones_ejemplo = transacciones_ejemplo"
    by (simp add: ultimas_def transacciones_ejemplo_def)
  have b: "estado_reversible biblioteca_ejemplo cuentas_ejemplo transacciones_ejemplo"
    unfolding estado_reversible_def u
    using cuenta_ayer_reversible hora_ejemplo_2 hora_ejemplo_3
    by (simp add: cuentas_ejemplo_def transacciones_ejemplo_def Transaccion_init_def)
  from guardar_cargar [OF a b, of Ausente] a b show ?thesis
    by (simp add: u cuentas_ejemplo_def)
qed

lemma cargar_cuentas_append:
  "cargar_cuentas L (ds1 @ ds2) acc =
     (case cargar_cuentas L ds1 acc of
        (a, None) \<Rightarrow> cargar_cuentas L ds2 a
      | (a, Some e) \<Rightarrow> (a, Some e))"
  by (induction ds1 arbitrary: acc) (simp_all split: sum.splits)

lemma cargar_transacciones_append:
  "cargar_transacciones L (ds1 @ ds2) acc =
     (case cargar_transacciones L ds1 acc of
        (a, None) \<Rightarrow> cargar_transacciones L ds2 a
      | (a, Some e) \<Rightarrow> (a, Some e))"
  by (induction ds1 arbitrary: acc) (simp_all split: sum.splits)

lemma transaccion_mala_falla:
  "Transaccion_from_dict L transaccion_mala = Inl ValueError"
  by (simp add: Transaccion_from_dict_def transaccion_mala_def ligar_def TipoTransaccion_of_def)

lemma cargar_cuenta_demo:
  "cargar_cuentas biblioteca_ejemplo [CuentaUsuario_to_dict biblioteca_ejemplo cuenta_demo] []
     = ([(VStr ''123456'', cuenta_cargada cuenta_demo)], None)"
  using CuentaUsuario_ida_vuelta [OF cuenta_demo_reversible]
  by (simp add: cuenta_cargada_def cuenta_demo_campos)

lemma cargar_datos_aborta:
  "cargar_datos L (Documento (VList xs)) = Inl AttributeError"
  "cargar_datos L (Documento (VDict [(''cuentas'', VList [VStr s])])) = Inl TypeError"
  by (simp_all add: cargar_datos_def cargar_documento_def ligar_def capturada_def
        CuentaUsuario_from_dict_def)

text \<open>
  Claim C7, as stated: when format validation fails anywhere, \<open>cargar_datos\<close> returns no
  accounts and no transactions. It fails on a document with one well-formed account and
  one transaction of a kind that does not exist: decoding the transaction raises
  \<open>ValueError\<close>, and the account already loaded is returned.
\<close>

theorem cargar_datos_counterexample:
  "cargar_datos biblioteca_ejemplo (Documento documento_parcial)
     = Inr ([(VStr ''123456'', cuenta_cargada cuenta_demo)], [])
   \<and> Transaccion_from_dict biblioteca_ejemplo transaccion_mala = Inl ValueError
   \<and> cargar_datos biblioteca_ejemplo (Documento documento_parcial) \<noteq> Inr ([], [])"
proof -
  have r: "cargar_datos biblioteca_ejemplo (Documento documento_parcial)
             = Inr ([(VStr ''123456'', cuenta_cargada cuenta_demo)], [])"
    by (simp add: cargar_datos_def cargar_documento_def documento_parcial_def ligar_def
          cargar_cuenta_demo transaccion_mala_falla capturada_def
          del: cargar_cuentas.simps)
  with transaccion_mala_falla [of biblioteca_ejemplo] show ?thesis by simp
qed

text \<open>
  Claim C7, amended. A missing file and a file that is not JSON give the empty state.
  \<open>cargar_datos\<close> never ends with one of the exceptions it catches (\<open>JSONDecodeError\<close>,
  \<open>KeyError\<close>, \<open>ValueError\<close>): when decoding a record raises one of them, it returns what
  was loaded before that record. If the record is an account, these are the accounts of
  the records before it and no transactions; if it is a transaction, all the accounts and
  the transactions before it.
\<close>

theorem cargar_datos_errores:
  "cargar_datos L Ausente = Inr ([], [])
   \<and> cargar_datos L NoJSON = Inr ([], [])
   \<and> (cargar_datos L disco = Inl e \<longrightarrow> \<not> capturada e)
   \<and> (map_of items ''cuentas'' = Some (VList (antes @ mala # despues))
        \<and> cargar_cuentas L antes [] = (cs, None)
        \<and> CuentaUsuario_from_dict L mala = Inl e \<and> capturada e
      \<longrightarrow> cargar_datos L (Documento (VDict items)) = Inr (cs, []))
   \<and> (map_of items ''cuentas'' = Some (VList cuentas_data)
        \<and> cargar_cuentas L cuentas_data [] = (cs, None)
        \<and> map_of items ''transacciones'' = Some (VList (antes @ mala # despues))
        \<and> cargar_transacciones L antes [] = (ts, None)
        \<and> Transaccion_from_dict L mala = Inl e \<and> capturada e
      \<longrightarrow> cargar_datos L (Documento (VDict items)) = Inr (cs, ts))"
proof -
  have a: "cargar_datos L Ausente = Inr ([], [])" "cargar_datos L NoJSON = Inr ([], [])"
    by (simp_all add: cargar_datos_def)
  have b: "cargar_datos L disco = Inl e \<longrightarrow> \<not> capturada e"
    by (auto simp: cargar_datos_def split: archivo.splits prod.splits option.splits if_splits)
  have c: "cargar_datos L (Documento (VDict items)) = Inr (cs, [])"
    if "map_of items ''cuentas'' = Some (VList (antes @ mala # despues))"
       "cargar_cuentas L antes [] = (cs, None)"
       "CuentaUsuario_from_dict L mala = Inl e" "capturada e"
  proof -
    have "cargar_cuentas L (antes @ mala # despues) [] = (cs, Some e)"
      using that(2,3) by (simp add: cargar_cuentas_append)
    with that(1,4) show ?thesis
      by (simp add: cargar_datos_def cargar_documento_def ligar_def)
  qed
  have d: "cargar_datos L (Documento (VDict items)) = Inr (cs, ts)"
    if "map_of items ''cuentas'' = Some (VList cuentas_data)"
       "cargar_cuentas L cuentas_data [] = (cs, None)"
       "map_of items ''transacciones'' = Some (VList (antes @ mala # despues))"
       "cargar_transacciones L antes [] = (ts, None)"
       "Transaccion_from_dict L mala = Inl e" "capturada e"
  proof -
    have "cargar_transacciones L (antes @ mala # despues) [] = (ts, Some e)"
      using that(4,5) by (simp add: cargar_transacciones_append)
    with that(1,2,3,6) show ?thesis
      by (simp add: cargar_datos_def cargar_documento_def ligar_def)
  qed
  from a b c d show ?thesis by blast
qed

text \<open>The document of the counterexample, through the theorem.\<close>

theorem cargar_datos_errores_witness:
  "cargar_datos biblioteca_ejemplo (Documento documento_parcial)
     = Inr ([(VStr ''123456'', cuenta_cargada cuenta_demo)], [])
   \<and> capturada ValueError
   \<and> cargar_datos biblioteca_ejemplo NoJSON = Inr ([], [])"
proof -
  have i: "documento_parcial =
      VDict [(''cuentas'', VList [CuentaUsuario_to_dict biblioteca_ejemplo cuenta_demo]),
             (''transacciones'', VList ([] @ transaccion_mala # []))]"
    by (simp add: documento_parcial_def)
  have m1: "map_of [(''cuentas'', VList [CuentaUsuario_to_dict biblioteca_ejemplo cuenta_demo]),
             (''transacciones'', VList ([] @ transaccion_mala # []))] ''cuentas''
        = Some (VList [CuentaUsuario_to_dict biblioteca_ejemplo cuenta_demo])"
    by simp
  have m2: "map_of [(''cuentas'', VList [CuentaUsuario_to_dict biblioteca_ejemplo cuenta_demo]),
             (''transacciones'', VList ([] @ transaccion_mala # []))] ''transacciones''
        = Some (VList ([] @ transaccion_mala # []))"
    by simp
  have t0: "cargar_transacciones biblioteca_ejemplo [] [] = ([], None)" by simp
  have cap: "capturada ValueError" by (simp add: capturada_def)
  note r = cargar_datos_errores [of biblioteca_ejemplo _ ValueError
      "[(''cuentas'', VList [CuentaUsuario_to_dict biblioteca_ejemplo cuenta_demo]),
        (''transacciones'', VList ([] @ transaccion_mala # []))]"
      "[]" transaccion_mala "[]" "[(VStr ''123456'', cuenta_cargada cuenta_demo)]"
      "[CuentaUsuario_to_dict biblioteca_ejemplo cuenta_demo]" "[]"]
  from r m1 m2 cargar_cuenta_demo t0 transaccion_mala_falla [of biblioteca_ejemplo] cap
  have "cargar_datos biblioteca_ejemplo (Documento documento_parcial)
          = Inr ([(VStr ''123456'', cuenta_cargada cuenta_demo)], [])"
    unfolding i by blast
  moreover from r have "cargar_datos biblioteca_ejemplo NoJSON = Inr ([], [])" by blast
  ultimately show ?thesis using cap by blast
qed

end
